theory Spec2Isabelle
  imports Main "HOL-Library.Char_ord" "HOL-Library.List_Lexorder" "HOL-Library.Multiset"
    "HOL-Library.Sublist"
begin

section \<open>go\_localstack: service descriptors, container lifecycle, endpoint resolution\<close>

text \<open>
  A shallow embedding of package \<open>localstack\<close>: \<open>pkg/localstack/localstackService.go\<close>,
  \<open>pkg/localstack/localstack.go\<close>, and the constructors of a second, earlier copy of
  \<open>localstack.go\<close> that the repository also holds. Go strings are byte sequences and are
  modelled as \<open>string\<close> (a list of 8-bit characters). A Go \<open>error\<close> value is modelled by its
  message, and \<open>nil\<close> by \<open>None\<close>. A Go result \<open>(*T, error)\<close> is the pair of a \<open>T option\<close> and
  an \<open>error option\<close>. The constructors dereference the pointer to the Service Set on every
  path that returns a handle, so they take the collection itself; only \<open>Sort\<close>, whose result
  is that pointer, is modelled over a store of collections.
\<close>

type_synonym error = string

subsection \<open>Formatting verbs used by the package\<close>

text \<open>\<open>%d\<close> of \<open>fmt.Sprintf\<close> on a Go \<open>int\<close>: decimal digits, a minus sign when negative.
  (A Go \<open>int\<close> has 64 bits; the package computes with none, it only stores and prints the
  port, so \<open>int\<close> is the unbounded integer here.)\<close>

definition digit_char :: "nat \<Rightarrow> char" where
  "digit_char d = ''0123456789'' ! d"

function showNat :: "nat \<Rightarrow> string" where
  "showNat n = (if n < 10 then [digit_char n] else showNat (n div 10) @ [digit_char (n mod 10)])"
  by pat_completeness auto
termination
  by (relation "measure (\<lambda>n. n)") auto

declare showNat.simps [simp del]

definition Sprintf_d :: "int \<Rightarrow> string" where
  "Sprintf_d i = (if i < 0 then ''-'' @ showNat (nat (- i)) else showNat (nat i))"

subsection \<open>localstackService.go\<close>

record LocalstackService =
  Name :: string
  Protocol :: string
  Port :: int

text \<open>\<open>GetPortProtocol\<close> is \<open>fmt.Sprintf("%d/%s", Port, Protocol)\<close>,
  \<open>GetNamePort\<close> is \<open>fmt.Sprintf("%s:%d", Name, Port)\<close>.\<close>

definition GetPortProtocol :: "LocalstackService \<Rightarrow> string" where
  "GetPortProtocol service = Sprintf_d (Port service) @ ''/'' @ Protocol service"

definition GetNamePort :: "LocalstackService \<Rightarrow> string" where
  "GetNamePort service = Name service @ '':'' @ Sprintf_d (Port service)"

text \<open>The slice literal \<open>services\<close> of \<open>NewLocalstackService\<close>, in source order.\<close>

definition services :: "string list" where
  "services =
    [''apigateway'', ''kinesis'', ''dynamodb'', ''dynamodbstreams'', ''es'', ''s3'',
     ''firehose'', ''lambda'', ''sns'', ''sqs'', ''redshift'', ''ses'', ''route53'',
     ''cloudformation'', ''cloudwatch'', ''ssm'', ''secrestmanager'', ''stepfunctions'',
     ''logs'', ''sts'', ''iam'']"

text \<open>The \<open>for _, n := range services\<close> loop: the first \<open>n == name\<close> returns the descriptor;
  falling off the end returns the error.\<close>

fun NewLocalstackService_loop ::
  "string list \<Rightarrow> string \<Rightarrow> LocalstackService option \<times> error option" where
  "NewLocalstackService_loop [] name = (None, Some (''unknown Localstack Service: '' @ name))"
| "NewLocalstackService_loop (n # ns) name =
     (if n = name then (Some \<lparr>Name = name, Protocol = ''tcp'', Port = 4566\<rparr>, None)
      else NewLocalstackService_loop ns name)"

definition NewLocalstackService :: "string \<Rightarrow> LocalstackService option \<times> error option" where
  "NewLocalstackService name = NewLocalstackService_loop services name"

type_synonym LocalstackServiceCollection = "LocalstackService list"

text \<open>\<open>GetServiceMap\<close>: \<open>strings.Join\<close> of the \<open>GetNamePort\<close> renderings with a comma.\<close>

fun strings_Join :: "string list \<Rightarrow> string \<Rightarrow> string" where
  "strings_Join [] sep = []"
| "strings_Join [x] sep = x"
| "strings_Join (x # y # ys) sep = x @ sep @ strings_Join (y # ys) sep"

definition GetServiceMap :: "LocalstackServiceCollection \<Rightarrow> string" where
  "GetServiceMap collection = strings_Join (map GetNamePort collection) '',''"

fun Contains :: "LocalstackServiceCollection \<Rightarrow> string \<Rightarrow> bool" where
  "Contains [] name = False"
| "Contains (v # rest) name = (if Name v = name then True else Contains rest name)"

subsection \<open>Collaborator types (go-dockerclient, dockertest, aws-sdk-go)\<close>

text \<open>
  Only the fields the package reads or writes are kept. A Go pointer that may be \<open>nil\<close> is an
  \<open>option\<close>. A call result \<open>(v, err)\<close> is the pair of the value and an \<open>error option\<close>, as Go
  returns it: the package tests \<open>err != nil\<close> and then ignores \<open>v\<close>.
\<close>

record PortBinding =
  HostIP :: string
  HostPort :: string

record NetworkSettings =
  Ports :: "string \<rightharpoonup> PortBinding list"

record Container =
  ID :: string
  NetworkSettings :: "NetworkSettings option"

record APIContainers =
  ID_APIContainers :: string
  Image :: string
  Names :: "string list"

record Resource =
  Container :: "Container option"

record ListContainersOptions =
  All_ListContainersOptions :: bool

record RunOptions =
  Repository :: string
  Tag :: string
  Name_RunOptions :: string
  Env :: "string list"
  Mounts :: "string list"
  PortBindings :: "(string \<times> PortBinding list) list"
  ExposedPorts :: "string list"

record LogsOptions =
  Container_LogsOptions :: string
  RawTerminal :: bool
  Stdout :: bool
  Stderr :: bool

text \<open>
  What the readiness closure reads from the outside world when it runs:
  \<open>docker.NewClientFromEnv()\<close> (\<open>None\<close>: a client was created) and \<open>client.Logs(opts)\<close>, which
  writes the log bytes into the buffer of \<open>opts.OutputStream\<close> and returns an error or \<open>nil\<close>.
\<close>

record docker_env =
  NewClientFromEnv :: "error option"
  client_Logs :: "LogsOptions \<Rightarrow> string \<times> error option"

text \<open>A call either returns or panics (with the panic's message).\<close>

datatype 'a outcome = Return 'a | Panic string

text \<open>
  The interface \<open>DockerWrapper\<close>: the four operations the package calls. An implementation has
  a state of its own (the docker engine, or the script of a test double), of type \<open>'s\<close>; each
  operation reads and updates it. \<open>Retry\<close> receives the readiness closure and decides when and
  how often to run it.
\<close>

record 's DockerWrapper =
  ListContainers :: "ListContainersOptions \<Rightarrow> 's \<Rightarrow> (APIContainers list \<times> error option) \<times> 's"
  InspectContainer :: "string \<Rightarrow> 's \<Rightarrow> (Container option \<times> error option) \<times> 's"
  RunWithOptions :: "RunOptions \<Rightarrow> 's \<Rightarrow> (Resource option \<times> error option) \<times> 's"
  Retry :: "(docker_env \<Rightarrow> error option outcome) \<Rightarrow> 's \<Rightarrow> error option \<times> 's"

record ResolvedEndpoint =
  URL :: string
  PartitionID :: string
  SigningRegion :: string
  SigningName :: string
  SigningNameDerived :: bool
  SigningMethod :: string

subsection \<open>Library functions on strings\<close>

text \<open>\<open>strings.Contains(s, substr)\<close>: \<open>substr\<close> occurs in \<open>s\<close> as a contiguous block.\<close>

fun strings_Contains :: "string \<Rightarrow> string \<Rightarrow> bool" where
  "strings_Contains [] substr = (substr = [])"
| "strings_Contains (c # cs) substr = (prefix substr (c # cs) \<or> strings_Contains cs substr)"

text \<open>
  \<open>strings.TrimSpace\<close> removes leading and trailing white space as defined by Unicode. On the
  bytes of a Go string these are the UTF-8 encodings of the code points with property
  White\_Space: U+0009..U+000D, U+0020, U+0085, U+00A0, U+1680, U+2000..U+200A, U+2028, U+2029,
  U+202F, U+205F, U+3000. A byte sequence that does not decode to one of them (also an
  invalid one, which decodes to U+FFFD) stops the trimming.
\<close>

definition whiteSpace :: "string list" where
  "whiteSpace =
    [[CHR 0x09], [CHR 0x0A], [CHR 0x0B], [CHR 0x0C], [CHR 0x0D], [CHR 0x20],
     [CHR 0xC2, CHR 0x85], [CHR 0xC2, CHR 0xA0],
     [CHR 0xE1, CHR 0x9A, CHR 0x80],
     [CHR 0xE2, CHR 0x80, CHR 0x80], [CHR 0xE2, CHR 0x80, CHR 0x81],
     [CHR 0xE2, CHR 0x80, CHR 0x82], [CHR 0xE2, CHR 0x80, CHR 0x83],
     [CHR 0xE2, CHR 0x80, CHR 0x84], [CHR 0xE2, CHR 0x80, CHR 0x85],
     [CHR 0xE2, CHR 0x80, CHR 0x86], [CHR 0xE2, CHR 0x80, CHR 0x87],
     [CHR 0xE2, CHR 0x80, CHR 0x88], [CHR 0xE2, CHR 0x80, CHR 0x89],
     [CHR 0xE2, CHR 0x80, CHR 0x8A],
     [CHR 0xE2, CHR 0x80, CHR 0xA8], [CHR 0xE2, CHR 0x80, CHR 0xA9],
     [CHR 0xE2, CHR 0x80, CHR 0xAF], [CHR 0xE2, CHR 0x81, CHR 0x9F],
     [CHR 0xE3, CHR 0x80, CHR 0x80]]"

function TrimLeftSpace :: "string \<Rightarrow> string" where
  "TrimLeftSpace s =
     (case find (\<lambda>w. prefix w s) whiteSpace of
        None \<Rightarrow> s
      | Some w \<Rightarrow> if w = [] then s else TrimLeftSpace (drop (length w) s))"
  by pat_completeness auto
termination
  by (relation "measure length") (auto simp: find_Some_iff prefix_def)

declare TrimLeftSpace.simps [simp del]

function TrimRightSpace :: "string \<Rightarrow> string" where
  "TrimRightSpace s =
     (case find (\<lambda>w. suffix w s) whiteSpace of
        None \<Rightarrow> s
      | Some w \<Rightarrow> if w = [] then s else TrimRightSpace (take (length s - length w) s))"
  by pat_completeness auto
termination
  by (relation "measure length") (auto simp: find_Some_iff suffix_def)

declare TrimRightSpace.simps [simp del]

definition TrimSpace :: "string \<Rightarrow> string" where
  "TrimSpace s = TrimRightSpace (TrimLeftSpace s)"

text \<open>The bytes that occur in the white space encodings.\<close>

definition spaceBytes :: "char set" where
  "spaceBytes = \<Union> (set ` set whiteSpace)"

subsection \<open>\<open>bufio.Scanner\<close> with the default split function \<open>ScanLines\<close>\<close>

text \<open>
  \<open>bufio.NewScanner\<close> over the log buffer. One call of \<open>Scan\<close> on the unread bytes \<open>rest\<close>:
  \<^item> nothing left: \<open>Scan\<close> returns false and \<open>Err()\<close> is \<open>nil\<close>;
  \<^item> the token is the bytes before the first newline (all of \<open>rest\<close> when there is none),
    with one trailing carriage return dropped, and the newline is consumed;
  \<^item> the scanner's buffer holds at most \<open>MaxScanTokenSize\<close> = 64 * 1024 bytes: when that
    many unread bytes hold no newline, \<open>Scan\<close> returns false and \<open>Err()\<close> is
    \<open>bufio.ErrTooLong\<close>.
\<close>

definition MaxScanTokenSize :: nat where
  "MaxScanTokenSize = 64 * 1024"

definition newline :: char where
  "newline = CHR 0x0A"

definition dropCR :: "string \<Rightarrow> string" where
  "dropCR data = (if data \<noteq> [] \<and> last data = CHR 0x0D then butlast data else data)"

datatype scan_result = Token string string | ScanEOF | ScanErr error

definition Scan :: "string \<Rightarrow> scan_result" where
  "Scan rest =
     (if rest = [] then ScanEOF
      else let line = takeWhile (\<lambda>c. c \<noteq> newline) rest in
        if MaxScanTokenSize \<le> length line then ScanErr ''bufio.Scanner: token too long''
        else Token (dropCR line) (drop (length line + 1) rest))"

subsection \<open>localstack.go: the lifecycle controller\<close>

definition LocalstackRepository :: string where
  "LocalstackRepository = ''localstack/localstack''"

definition LocalstackTag :: string where
  "LocalstackTag = ''0.11.5''"

record Localstack =
  Resource :: "Resource option"
  Services :: LocalstackServiceCollection

text \<open>The \<open>for scanner.Scan()\<close> loop of the readiness closure and the two returns after it.\<close>

function scanLoop :: "string \<Rightarrow> error option" where
  "scanLoop rest =
     (case Scan rest of
        Token text rest' \<Rightarrow>
          (let token = TrimSpace text; expected = ''Ready.'' in
           if strings_Contains (TrimSpace token) expected then None else scanLoop rest')
      | ScanErr err \<Rightarrow> Some (''reading input: '' @ err)
      | ScanEOF \<Rightarrow> Some ''not Ready'')"
  by pat_completeness auto
termination
  by (relation "measure length") (auto simp: Scan_def Let_def split: if_splits)

declare scanLoop.simps [simp del]

text \<open>
  The closure passed to \<open>wrapper.Retry\<close>. It captures \<open>localstack\<close>, the resolved resource;
  \<open>localstack.Container.ID\<close> panics when either pointer is \<open>nil\<close>.
\<close>

definition readinessCheck :: "Resource option \<Rightarrow> docker_env \<Rightarrow> error option outcome" where
  "readinessCheck localstack env =
     (case NewClientFromEnv env of
        Some err \<Rightarrow> Return (Some (''unable to create a docker client: '' @ err))
      | None \<Rightarrow>
         (case localstack of
            None \<Rightarrow> Panic ''nil pointer dereference''
          | Some l \<Rightarrow>
             (case Container l of
                None \<Rightarrow> Panic ''nil pointer dereference''
              | Some c \<Rightarrow>
                 (let logsOptions = \<lparr>Container_LogsOptions = ID c, RawTerminal = True,
                                      Stdout = True, Stderr = True\<rparr> in
                  case client_Logs env logsOptions of
                    (buffer, Some err) \<Rightarrow>
                      Return (Some (''unable to retrieve logs for container '' @ ID c @ '': '' @ err))
                  | (buffer, None) \<Rightarrow> Return (scanLoop buffer)))))"

text \<open>\<open>getLocalstack\<close>: the inner loop over \<open>c.Names\<close> (\<open>None\<close>: the loop ended without a
  return), the outer loop over the listed containers, and the function itself.\<close>

fun getLocalstack_names ::
  "'s DockerWrapper \<Rightarrow> string \<Rightarrow> APIContainers \<Rightarrow> string list \<Rightarrow> 's \<Rightarrow>
   ((Resource option \<times> error option) \<times> 's) option" where
  "getLocalstack_names dockerWrapper name c [] s = None"
| "getLocalstack_names dockerWrapper name c (internalName # rest) s =
     (if internalName = ''/'' @ name then
        (case InspectContainer dockerWrapper (ID_APIContainers c) s of
           ((container, Some err), s') \<Rightarrow>
             Some ((None, Some (''unable to inspect container '' @ ID_APIContainers c @ '': '' @ err)), s')
         | ((container, None), s') \<Rightarrow> Some ((Some \<lparr>Container = container\<rparr>, None), s'))
      else getLocalstack_names dockerWrapper name c rest s)"

fun getLocalstack_containers ::
  "'s DockerWrapper \<Rightarrow> string \<Rightarrow> string \<Rightarrow> string \<Rightarrow> APIContainers list \<Rightarrow> 's \<Rightarrow>
   (Resource option \<times> error option) \<times> 's" where
  "getLocalstack_containers dockerWrapper name repository tag [] s = ((None, None), s)"
| "getLocalstack_containers dockerWrapper name repository tag (c # cs) s =
     (if Image c = repository @ '':'' @ tag then
        (case getLocalstack_names dockerWrapper name c (Names c) s of
           Some r \<Rightarrow> r
         | None \<Rightarrow> getLocalstack_containers dockerWrapper name repository tag cs s)
      else getLocalstack_containers dockerWrapper name repository tag cs s)"

definition getLocalstack ::
  "LocalstackServiceCollection \<Rightarrow> 's DockerWrapper \<Rightarrow> string \<Rightarrow> string \<Rightarrow> string \<Rightarrow> 's \<Rightarrow>
   (Resource option \<times> error option) \<times> 's" where
  "getLocalstack ignored dockerWrapper name repository tag s =
     (if name \<noteq> [] then
        (case ListContainers dockerWrapper \<lparr>All_ListContainersOptions = True\<rparr> s of
           ((containers, Some err), s') \<Rightarrow>
             ((None, Some (''unable to retrieve docker containers: '' @ err)), s')
         | ((containers, None), s') \<Rightarrow>
             getLocalstack_containers dockerWrapper name repository tag containers s')
      else ((None, None), s))"

text \<open>The readiness loop \<open>for _, service := range *services\<close>: one \<open>Retry\<close> per service, the
  first failure returns.\<close>

fun pollServices ::
  "'s DockerWrapper \<Rightarrow> Resource option \<Rightarrow> LocalstackServiceCollection \<Rightarrow> 's \<Rightarrow> error option \<times> 's" where
  "pollServices wrapper localstack [] s = (None, s)"
| "pollServices wrapper localstack (service # rest) s =
     (case Retry wrapper (readinessCheck localstack) s of
        (Some err, s') \<Rightarrow> (Some (''unable to connect to '' @ Name service @ '': '' @ err), s')
      | (None, s') \<Rightarrow> pollServices wrapper localstack rest s')"

text \<open>The run options built when discovery found nothing.\<close>

definition runOptions ::
  "LocalstackServiceCollection \<Rightarrow> string \<Rightarrow> string \<Rightarrow> string \<Rightarrow> string \<Rightarrow> RunOptions" where
  "runOptions svcs name repository tag data =
     (let options = \<lparr>Repository = repository, Tag = tag, Name_RunOptions = name,
                      Env = [''SERVICES='' @ GetServiceMap svcs], Mounts = [],
                      PortBindings = [], ExposedPorts = []\<rparr>
      in if length data > 0
         then options\<lparr>Env := Env options @ [''DATA_DIR='' @ data],
                      Mounts := [''/tmp/localstack/data:/tmp/localstack/data'']\<rparr>
         else options)"

text \<open>
  \<open>newPersistentLocalstack\<close>, in the two stages of its body. First the resource is resolved:
  discovery, and \<open>RunWithOptions\<close> when discovery returned \<open>(nil, nil)\<close>. Then every service is
  polled and the handle is built.
\<close>

definition resolveLocalstack ::
  "LocalstackServiceCollection \<Rightarrow> 's DockerWrapper \<Rightarrow> string \<Rightarrow> string \<Rightarrow> string \<Rightarrow> string \<Rightarrow> 's \<Rightarrow>
   (Resource option \<times> error option) \<times> 's" where
  "resolveLocalstack svcs wrapper name repository tag data s =
     (case getLocalstack svcs wrapper name repository tag s of
        ((localstack, Some err), s1) \<Rightarrow> ((None, Some err), s1)
      | ((Some l, None), s1) \<Rightarrow> ((Some l, None), s1)
      | ((None, None), s1) \<Rightarrow>
         (case RunWithOptions wrapper (runOptions svcs name repository tag data) s1 of
            ((localstack, Some err), s2) \<Rightarrow> ((None, Some (''could not start resource: '' @ err)), s2)
          | ((localstack, None), s2) \<Rightarrow> ((localstack, None), s2)))"

definition newPersistentLocalstack ::
  "LocalstackServiceCollection \<Rightarrow> 's DockerWrapper \<Rightarrow> string \<Rightarrow> string \<Rightarrow> string \<Rightarrow> string \<Rightarrow> 's \<Rightarrow>
   (Localstack option \<times> error option) \<times> 's" where
  "newPersistentLocalstack svcs wrapper name repository tag data s =
     (case resolveLocalstack svcs wrapper name repository tag data s of
        ((localstack, Some err), s2) \<Rightarrow> ((None, Some err), s2)
      | ((localstack, None), s2) \<Rightarrow>
         (case pollServices wrapper localstack svcs s2 of
            (Some err, s3) \<Rightarrow> ((None, Some err), s3)
          | (None, s3) \<Rightarrow> ((Some \<lparr>Resource = localstack, Services = svcs\<rparr>, None), s3)))"

definition newLocalstack ::
  "LocalstackServiceCollection \<Rightarrow> 's DockerWrapper \<Rightarrow> string \<Rightarrow> string \<Rightarrow> string \<Rightarrow> 's \<Rightarrow>
   (Localstack option \<times> error option) \<times> 's" where
  "newLocalstack svcs wrapper name repository tag s =
     newPersistentLocalstack svcs wrapper name repository tag [] s"

text \<open>The exported constructors. They pass \<open>&_DockerWrapper{}\<close>, the production adapter, whose
  declaration is outside these files: it is the parameter \<open>dw\<close>.\<close>

definition NewPersistentSpecificLocalstack ::
  "'s DockerWrapper \<Rightarrow> LocalstackServiceCollection \<Rightarrow> string \<Rightarrow> string \<Rightarrow> string \<Rightarrow> string \<Rightarrow> 's \<Rightarrow>
   (Localstack option \<times> error option) \<times> 's" where
  "NewPersistentSpecificLocalstack dw svcs name repository tag data s =
     newPersistentLocalstack svcs dw name repository tag data s"

definition NewSpecificLocalstack ::
  "'s DockerWrapper \<Rightarrow> LocalstackServiceCollection \<Rightarrow> string \<Rightarrow> string \<Rightarrow> string \<Rightarrow> 's \<Rightarrow>
   (Localstack option \<times> error option) \<times> 's" where
  "NewSpecificLocalstack dw svcs name repository tag s =
     NewPersistentSpecificLocalstack dw svcs name repository tag [] s"

definition NewLocalstack ::
  "'s DockerWrapper \<Rightarrow> LocalstackServiceCollection \<Rightarrow> 's \<Rightarrow> (Localstack option \<times> error option) \<times> 's" where
  "NewLocalstack dw svcs s = NewSpecificLocalstack dw svcs [] LocalstackRepository ''latest'' s"

definition NewPersistentLocalstack ::
  "'s DockerWrapper \<Rightarrow> LocalstackServiceCollection \<Rightarrow> string \<Rightarrow> 's \<Rightarrow>
   (Localstack option \<times> error option) \<times> 's" where
  "NewPersistentLocalstack dw svcs data s =
     NewPersistentSpecificLocalstack dw svcs [] LocalstackRepository ''latest'' data s"

definition NewNamedPersistentLocalstack ::
  "'s DockerWrapper \<Rightarrow> LocalstackServiceCollection \<Rightarrow> string \<Rightarrow> string \<Rightarrow> 's \<Rightarrow>
   (Localstack option \<times> error option) \<times> 's" where
  "NewNamedPersistentLocalstack dw svcs name data s =
     NewPersistentSpecificLocalstack dw svcs name LocalstackRepository ''latest'' data s"

text \<open>
  The lines of a buffer, as the property speaks of them: the pieces between newlines (a
  newline at the very end starts no further line). A line is ready when, trimmed of
  surrounding white space, it contains \<open>Ready.\<close>\<close>

function splitLines :: "string \<Rightarrow> string list" where
  "splitLines rest =
     (if rest = [] then []
      else let line = takeWhile (\<lambda>c. c \<noteq> newline) rest in
        line # splitLines (drop (length line + 1) rest))"
  by pat_completeness auto
termination
  by (relation "measure length") (auto simp: Let_def)

declare splitLines.simps [simp del]

definition line_ready :: "string \<Rightarrow> bool" where
  "line_ready line = strings_Contains (TrimSpace line) ''Ready.''"

text \<open>A docker environment in which a client is created and the logs are \<open>buffer\<close>.\<close>

definition logs_env :: "string \<Rightarrow> docker_env" where
  "logs_env buffer = \<lparr>NewClientFromEnv = None, client_Logs = (\<lambda>opts. (buffer, None))\<rparr>"

subsection \<open>localstack.go: the endpoint resolver and the session factory\<close>

text \<open>The map literal \<open>availableServices\<close> of \<open>EndpointFor\<close>, in source order. Indexing a Go map
  with a key it does not hold gives the zero value, the empty string.\<close>

definition availableServices :: "(string \<times> string) list" where
  "availableServices =
    [(''apigateway'', ''apigateway''), (''kinesis'', ''kinesis''), (''dynamodb'', ''dynamodb''),
     (''streams.dynamodb'', ''dynamodbstreams''), (''es'', ''es''), (''s3'', ''s3''),
     (''firehose'', ''firehose''), (''lambda'', ''lambda''), (''sns'', ''sns''), (''sqs'', ''sqs''),
     (''redshift'', ''redshift''), (''email'', ''ses''), (''route53'', ''route53''),
     (''cloudformation'', ''cloudformation''), (''monitoring'', ''cloudwatch''), (''ssm'', ''ssm''),
     (''secretsmanager'', ''secretsmanager''), (''states'', ''stepfunctions''), (''logs'', ''logs''),
     (''sts'', ''sts''), (''iam'', ''iam'')]"

definition map_index :: "(string \<times> string) list \<Rightarrow> string \<Rightarrow> string" where
  "map_index m k = (case map_of m k of None \<Rightarrow> [] | Some v \<Rightarrow> v)"

text \<open>
  \<open>for k := range availableServices\<close>. Go does not fix the order in which \<open>range\<close> visits the
  keys of a map: the order is the argument \<open>keys\<close>. \<open>GetHostPort\<close> is the method of
  \<open>dockertest.Resource\<close> (the published \<open>host:port\<close> of a container port), a parameter here.
\<close>

fun EndpointFor_range ::
  "(Resource option \<Rightarrow> string \<Rightarrow> string) \<Rightarrow> Localstack \<Rightarrow> string \<Rightarrow> string list \<Rightarrow>
   (ResolvedEndpoint \<times> error option) option" where
  "EndpointFor_range GetHostPort ls service [] = None"
| "EndpointFor_range GetHostPort ls service (k # ks) =
     (if k = service \<and> Contains (Services ls) (map_index availableServices service) then
        Some (\<lparr>URL = ''http://'' @ GetHostPort (Resource ls) ''4566/tcp'', PartitionID = [],
                SigningRegion = [], SigningName = [], SigningNameDerived = False,
                SigningMethod = []\<rparr>, None)
      else EndpointFor_range GetHostPort ls service ks)"

text \<open>\<open>DefaultResolver_EndpointFor\<close> is \<open>endpoints.DefaultResolver().EndpointFor\<close> of the SDK.\<close>

definition EndpointFor ::
  "(Resource option \<Rightarrow> string \<Rightarrow> string) \<Rightarrow>
   (string \<Rightarrow> string \<Rightarrow> 'o list \<Rightarrow> ResolvedEndpoint \<times> error option) \<Rightarrow> string list \<Rightarrow>
   Localstack \<Rightarrow> string \<Rightarrow> string \<Rightarrow> 'o list \<Rightarrow> ResolvedEndpoint \<times> error option" where
  "EndpointFor GetHostPort DefaultResolver_EndpointFor keys ls service region optFns =
     (case EndpointFor_range GetHostPort ls service keys of
        Some r \<Rightarrow> r
      | None \<Rightarrow> DefaultResolver_EndpointFor service region optFns)"

datatype Credentials = NewStaticCredentials string string string

record aws_Config =
  Region :: "string option"
  EndpointResolver :: "Localstack option"
  DisableSSL :: "bool option"
  S3ForcePathStyle :: "bool option"
  Credentials :: "Credentials option"

text \<open>\<open>session.Must\<close> panics on an error; \<open>NewSession\<close> is \<open>session.NewSession\<close> of the SDK.\<close>

definition session_Must :: "'sess \<times> error option \<Rightarrow> 'sess outcome" where
  "session_Must r = (case r of (sess, Some err) \<Rightarrow> Panic err | (sess, None) \<Rightarrow> Return sess)"

definition CreateAWSSession ::
  "(aws_Config list \<Rightarrow> 'sess \<times> error option) \<Rightarrow> Localstack \<Rightarrow> 'sess outcome" where
  "CreateAWSSession NewSession ls =
     session_Must (NewSession [\<lparr>Region = Some ''us-east-1'', EndpointResolver = Some ls,
                                 DisableSSL = Some True, S3ForcePathStyle = Some True,
                                 Credentials = Some (NewStaticCredentials ''a'' ''b'' ''c'')\<rparr>])"

text \<open>
  \<open>Resource.GetHostPort\<close> as dockertest v3 defines it, with \<open>net.JoinHostPort\<close>: the first
  binding of the port, \<open>0.0.0.0\<close> replaced by \<open>localhost\<close>, a host with a colon in brackets; the
  empty string when the container, its network settings or the binding is missing. (A nil
  receiver panics inside the library; the controller never builds one from a non-nil result.)
\<close>

definition JoinHostPort :: "string \<Rightarrow> string \<Rightarrow> string" where
  "JoinHostPort host port =
     (if CHR '':'' \<in> set host then ''['' @ host @ '']:'' @ port else host @ '':'' @ port)"

definition GetHostPort :: "Resource option \<Rightarrow> string \<Rightarrow> string" where
  "GetHostPort r portID =
     (case r of
        None \<Rightarrow> []
      | Some res \<Rightarrow>
         (case Container res of
            None \<Rightarrow> []
          | Some c \<Rightarrow>
             (case NetworkSettings c of
                None \<Rightarrow> []
              | Some ns \<Rightarrow>
                 (case Ports ns portID of
                    None \<Rightarrow> []
                  | Some [] \<Rightarrow> []
                  | Some (m # ms) \<Rightarrow>
                      JoinHostPort (if HostIP m = ''0.0.0.0'' then ''localhost'' else HostIP m)
                        (HostPort m)))))"

subsection \<open>localstackService.go: the \<open>sort.Interface\<close> methods and \<open>Sort\<close>\<close>

text \<open>Indexing a slice out of range panics.\<close>

definition Len :: "LocalstackServiceCollection \<Rightarrow> int" where
  "Len collection = int (length collection)"

definition in_range :: "LocalstackServiceCollection \<Rightarrow> int \<Rightarrow> bool" where
  "in_range collection i = (0 \<le> i \<and> i < Len collection)"

definition Swap :: "LocalstackServiceCollection \<Rightarrow> int \<Rightarrow> int \<Rightarrow> LocalstackServiceCollection outcome" where
  "Swap collection i j =
     (if in_range collection i \<and> in_range collection j
      then Return (collection[nat i := collection ! nat j, nat j := collection ! nat i])
      else Panic ''index out of range'')"

definition Less :: "LocalstackServiceCollection \<Rightarrow> int \<Rightarrow> int \<Rightarrow> bool outcome" where
  "Less collection i j =
     (if in_range collection i \<and> in_range collection j
      then Return (Name (collection ! nat i) < Name (collection ! nat j))
      else Panic ''index out of range'')"

text \<open>
  \<open>Sort\<close> has a pointer receiver: \<open>collection\<close> is an address in a store of collections.
  \<open>sort.Sort\<close> of the standard library is the parameter \<open>sort_Sort\<close>: it permutes the collection
  at that address through \<open>Len\<close>, \<open>Less\<close> and \<open>Swap\<close>, and \<open>Sort\<close> returns the same pointer.
\<close>

type_synonym addr = nat
type_synonym store = "addr \<rightharpoonup> LocalstackServiceCollection"

definition Sort ::
  "(LocalstackServiceCollection \<Rightarrow> LocalstackServiceCollection outcome) \<Rightarrow> addr \<Rightarrow> store \<Rightarrow>
   (addr \<times> store) outcome" where
  "Sort sort_Sort collection h =
     (case h collection of
        None \<Rightarrow> Panic ''nil pointer dereference''
      | Some data \<Rightarrow>
         (case sort_Sort data of
            Panic m \<Rightarrow> Panic m
          | Return data' \<Rightarrow> Return (collection, h(collection \<mapsto> data'))))"

text \<open>
  What the documentation of \<open>sort.Sort\<close> promises for this collection type: it returns, the
  elements are the same, and no element is \<open>Less\<close> than one before it.
\<close>

definition sort_contract :: "(LocalstackServiceCollection \<Rightarrow> LocalstackServiceCollection outcome) \<Rightarrow> bool" where
  "sort_contract sort_Sort =
     (\<forall>data. \<exists>data'. sort_Sort data = Return data' \<and> mset data' = mset data \<and>
        (\<forall>i j. i < j \<and> j < length data' \<longrightarrow> Less data' (int j) (int i) = Return False))"

text \<open>
  \<open>sort.Sort\<close> as Go 1.11 to 1.18 run it on a slice of at most 12 elements
  (\<open>quickSort\<close> skips its partitioning loop): one pass of Shell sort with gap 6, then
  \<open>insertionSort\<close>. The same code sorts a slice of any length.
\<close>

function insertionSort_inner ::
  "LocalstackServiceCollection \<Rightarrow> nat \<Rightarrow> nat \<Rightarrow> LocalstackServiceCollection outcome" where
  "insertionSort_inner data a j =
     (if j > a then
        (case Less data (int j) (int j - 1) of
           Panic m \<Rightarrow> Panic m
         | Return False \<Rightarrow> Return data
         | Return True \<Rightarrow>
            (case Swap data (int j) (int j - 1) of
               Panic m \<Rightarrow> Panic m
             | Return data' \<Rightarrow> insertionSort_inner data' a (j - 1)))
      else Return data)"
  by pat_completeness auto
termination
  by (relation "measure (\<lambda>(data, a, j). j)") auto

declare insertionSort_inner.simps [simp del]

function insertionSort_outer ::
  "LocalstackServiceCollection \<Rightarrow> nat \<Rightarrow> nat \<Rightarrow> nat \<Rightarrow> LocalstackServiceCollection outcome" where
  "insertionSort_outer data a b i =
     (if i < b then
        (case insertionSort_inner data a i of
           Panic m \<Rightarrow> Panic m
         | Return data' \<Rightarrow> insertionSort_outer data' a b (i + 1))
      else Return data)"
  by pat_completeness auto
termination
  by (relation "measure (\<lambda>(data, a, b, i). b - i)") auto

declare insertionSort_outer.simps [simp del]

definition insertionSort ::
  "LocalstackServiceCollection \<Rightarrow> nat \<Rightarrow> nat \<Rightarrow> LocalstackServiceCollection outcome" where
  "insertionSort data a b = insertionSort_outer data a b (a + 1)"

function shellPass ::
  "LocalstackServiceCollection \<Rightarrow> nat \<Rightarrow> nat \<Rightarrow> LocalstackServiceCollection outcome" where
  "shellPass data b i =
     (if i < b then
        (case Less data (int i) (int i - 6) of
           Panic m \<Rightarrow> Panic m
         | Return False \<Rightarrow> shellPass data b (i + 1)
         | Return True \<Rightarrow>
            (case Swap data (int i) (int i - 6) of
               Panic m \<Rightarrow> Panic m
             | Return data' \<Rightarrow> shellPass data' b (i + 1)))
      else Return data)"
  by pat_completeness auto
termination
  by (relation "measure (\<lambda>(data, b, i). b - i)") auto

declare shellPass.simps [simp del]

definition shellInsertionSort :: "LocalstackServiceCollection \<Rightarrow> LocalstackServiceCollection outcome" where
  "shellInsertionSort data =
     (let a = 0; b = nat (Len data) in
      if b - a > 1 then
        (case shellPass data b (a + 6) of
           Panic m \<Rightarrow> Panic m
         | Return data' \<Rightarrow> insertionSort data' a b)
      else Return data)"

text \<open>What one run of the inner loop of \<open>insertionSort\<close> does to the sorted prefix, read from
  its right end: the new element moves left past every element with a greater name.\<close>

fun insl :: "LocalstackService \<Rightarrow> LocalstackService list \<Rightarrow> LocalstackService list" where
  "insl x [] = [x]"
| "insl x (y # ys) = (if Name x < Name y then y # insl x ys else x # y # ys)"

text \<open>Stability: elements with equal names keep their relative order.\<close>

definition stable_by_Name :: "LocalstackServiceCollection \<Rightarrow> LocalstackServiceCollection \<Rightarrow> bool" where
  "stable_by_Name before after = (\<forall>n. filter (\<lambda>x. Name x = n) after = filter (\<lambda>x. Name x = n) before)"

subsection \<open>The second copy of \<open>localstack.go\<close>\<close>

text \<open>
  The repository holds a second file of package \<open>localstack\<close> with the same functions in
  an earlier state (capitalised messages, port bindings in the run options, no mount). Its
  constructors are modelled under the suffix \<open>_v0\<close>.
\<close>

function scanLoop_v0 :: "string \<Rightarrow> error option" where
  "scanLoop_v0 rest =
     (case Scan rest of
        Token text rest' \<Rightarrow>
          (let token = TrimSpace text; expected = ''Ready.'' in
           if strings_Contains (TrimSpace token) expected then None else scanLoop_v0 rest')
      | ScanErr err \<Rightarrow> Some (''Reading input: '' @ err)
      | ScanEOF \<Rightarrow> Some ''Not Ready'')"
  by pat_completeness auto
termination
  by (relation "measure length") (auto simp: Scan_def Let_def split: if_splits)

declare scanLoop_v0.simps [simp del]

definition readinessCheck_v0 :: "Resource option \<Rightarrow> docker_env \<Rightarrow> error option outcome" where
  "readinessCheck_v0 localstack env =
     (case NewClientFromEnv env of
        Some err \<Rightarrow> Return (Some (''Unable to create a docker client: '' @ err))
      | None \<Rightarrow>
         (case localstack of
            None \<Rightarrow> Panic ''nil pointer dereference''
          | Some l \<Rightarrow>
             (case Container l of
                None \<Rightarrow> Panic ''nil pointer dereference''
              | Some c \<Rightarrow>
                 (let logsOptions = \<lparr>Container_LogsOptions = ID c, RawTerminal = True,
                                      Stdout = True, Stderr = True\<rparr> in
                  case client_Logs env logsOptions of
                    (buffer, Some err) \<Rightarrow>
                      Return (Some (''Unable to retrieve logs for container '' @ ID c @ '': '' @ err))
                  | (buffer, None) \<Rightarrow> Return (scanLoop_v0 buffer)))))"

fun getLocalstack_names_v0 ::
  "'s DockerWrapper \<Rightarrow> string \<Rightarrow> APIContainers \<Rightarrow> string list \<Rightarrow> 's \<Rightarrow>
   ((Resource option \<times> error option) \<times> 's) option" where
  "getLocalstack_names_v0 dockerWrapper name c [] s = None"
| "getLocalstack_names_v0 dockerWrapper name c (internalName # rest) s =
     (if internalName = ''/'' @ name then
        (case InspectContainer dockerWrapper (ID_APIContainers c) s of
           ((container, Some err), s') \<Rightarrow>
             Some ((None, Some (''Unable to inspect container '' @ ID_APIContainers c @ '': '' @ err)), s')
         | ((container, None), s') \<Rightarrow> Some ((Some \<lparr>Container = container\<rparr>, None), s'))
      else getLocalstack_names_v0 dockerWrapper name c rest s)"

fun getLocalstack_containers_v0 ::
  "'s DockerWrapper \<Rightarrow> string \<Rightarrow> string \<Rightarrow> string \<Rightarrow> APIContainers list \<Rightarrow> 's \<Rightarrow>
   (Resource option \<times> error option) \<times> 's" where
  "getLocalstack_containers_v0 dockerWrapper name repository tag [] s = ((None, None), s)"
| "getLocalstack_containers_v0 dockerWrapper name repository tag (c # cs) s =
     (if Image c = repository @ '':'' @ tag then
        (case getLocalstack_names_v0 dockerWrapper name c (Names c) s of
           Some r \<Rightarrow> r
         | None \<Rightarrow> getLocalstack_containers_v0 dockerWrapper name repository tag cs s)
      else getLocalstack_containers_v0 dockerWrapper name repository tag cs s)"

definition getLocalstack_v0 ::
  "LocalstackServiceCollection \<Rightarrow> 's DockerWrapper \<Rightarrow> string \<Rightarrow> string \<Rightarrow> string \<Rightarrow> 's \<Rightarrow>
   (Resource option \<times> error option) \<times> 's" where
  "getLocalstack_v0 svcs dockerWrapper name repository tag s =
     (if name \<noteq> [] then
        (case ListContainers dockerWrapper \<lparr>All_ListContainersOptions = True\<rparr> s of
           ((containers, Some err), s') \<Rightarrow>
             ((None, Some (''Unable to retrieve docker containers: '' @ err)), s')
         | ((containers, None), s') \<Rightarrow>
             getLocalstack_containers_v0 dockerWrapper name repository tag containers s')
      else ((None, None), s))"

fun pollServices_v0 ::
  "'s DockerWrapper \<Rightarrow> Resource option \<Rightarrow> LocalstackServiceCollection \<Rightarrow> 's \<Rightarrow> error option \<times> 's" where
  "pollServices_v0 wrapper localstack [] s = (None, s)"
| "pollServices_v0 wrapper localstack (service # rest) s =
     (case Retry wrapper (readinessCheck_v0 localstack) s of
        (Some err, s') \<Rightarrow> (Some (''Unable to connect to '' @ Name service @ '': '' @ err), s')
      | (None, s') \<Rightarrow> pollServices_v0 wrapper localstack rest s')"

definition runOptions_v0 ::
  "LocalstackServiceCollection \<Rightarrow> string \<Rightarrow> string \<Rightarrow> string \<Rightarrow> string \<Rightarrow> RunOptions" where
  "runOptions_v0 svcs name repository tag data =
     (let options = \<lparr>Repository = repository, Tag = tag, Name_RunOptions = name,
                      Env = [''SERVICES='' @ GetServiceMap svcs], Mounts = [],
                      PortBindings = [(''4566'', [\<lparr>HostIP = [], HostPort = ''4566''\<rparr>])],
                      ExposedPorts = [''4566'']\<rparr>
      in if length data > 0
         then options\<lparr>Env := Env options @ [''DATA_DIR='' @ data]\<rparr>
         else options)"

definition resolveLocalstack_v0 ::
  "LocalstackServiceCollection \<Rightarrow> 's DockerWrapper \<Rightarrow> string \<Rightarrow> string \<Rightarrow> string \<Rightarrow> string \<Rightarrow> 's \<Rightarrow>
   (Resource option \<times> error option) \<times> 's" where
  "resolveLocalstack_v0 svcs wrapper name repository tag data s =
     (case getLocalstack_v0 svcs wrapper name repository tag s of
        ((localstack, Some err), s1) \<Rightarrow> ((None, Some err), s1)
      | ((Some l, None), s1) \<Rightarrow> ((Some l, None), s1)
      | ((None, None), s1) \<Rightarrow>
         (case RunWithOptions wrapper (runOptions_v0 svcs name repository tag data) s1 of
            ((localstack, Some err), s2) \<Rightarrow> ((None, Some (''Could not start resource: '' @ err)), s2)
          | ((localstack, None), s2) \<Rightarrow> ((localstack, None), s2)))"

definition newPersistentLocalstack_v0 ::
  "LocalstackServiceCollection \<Rightarrow> 's DockerWrapper \<Rightarrow> string \<Rightarrow> string \<Rightarrow> string \<Rightarrow> string \<Rightarrow> 's \<Rightarrow>
   (Localstack option \<times> error option) \<times> 's" where
  "newPersistentLocalstack_v0 svcs wrapper name repository tag data s =
     (case resolveLocalstack_v0 svcs wrapper name repository tag data s of
        ((localstack, Some err), s2) \<Rightarrow> ((None, Some err), s2)
      | ((localstack, None), s2) \<Rightarrow>
         (case pollServices_v0 wrapper localstack svcs s2 of
            (Some err, s3) \<Rightarrow> ((None, Some err), s3)
          | (None, s3) \<Rightarrow> ((Some \<lparr>Resource = localstack, Services = svcs\<rparr>, None), s3)))"

definition NewPersistentSpecificLocalstack_v0 ::
  "'s DockerWrapper \<Rightarrow> LocalstackServiceCollection \<Rightarrow> string \<Rightarrow> string \<Rightarrow> string \<Rightarrow> string \<Rightarrow> 's \<Rightarrow>
   (Localstack option \<times> error option) \<times> 's" where
  "NewPersistentSpecificLocalstack_v0 dw svcs name repository tag data s =
     newPersistentLocalstack_v0 svcs dw name repository tag data s"

definition NewSpecificLocalstack_v0 ::
  "'s DockerWrapper \<Rightarrow> LocalstackServiceCollection \<Rightarrow> string \<Rightarrow> string \<Rightarrow> string \<Rightarrow> 's \<Rightarrow>
   (Localstack option \<times> error option) \<times> 's" where
  "NewSpecificLocalstack_v0 dw svcs name repository tag s =
     NewPersistentSpecificLocalstack_v0 dw svcs name repository tag [] s"

text \<open>\<open>NewPersistentLocalstack\<close> of this file receives \<open>data\<close> and calls
  \<open>NewSpecificLocalstack(services, "", Localstack_Repository, "latest")\<close>.\<close>

definition Localstack_Repository :: string where
  "Localstack_Repository = ''localstack/localstack''"

definition NewPersistentLocalstack_v0 ::
  "'s DockerWrapper \<Rightarrow> LocalstackServiceCollection \<Rightarrow> string \<Rightarrow> 's \<Rightarrow>
   (Localstack option \<times> error option) \<times> 's" where
  "NewPersistentLocalstack_v0 dw svcs data s =
     NewSpecificLocalstack_v0 dw svcs [] Localstack_Repository ''latest'' s"

subsection \<open>A recording adapter\<close>

text \<open>
  To count and order the calls the controller makes, an adapter is wrapped so that every call
  is appended to a log kept beside the adapter's own state; the wrapped adapter answers as
  the original does.
\<close>

datatype event =
    CallListContainers ListContainersOptions
  | CallInspectContainer string
  | CallRunWithOptions RunOptions
  | CallRetry "error option"

definition recording :: "'s DockerWrapper \<Rightarrow> ('s \<times> event list) DockerWrapper" where
  "recording w =
     \<lparr>ListContainers = (\<lambda>opts (s, log). case ListContainers w opts s of
          (r, s') \<Rightarrow> (r, (s', log @ [CallListContainers opts]))),
      InspectContainer = (\<lambda>id (s, log). case InspectContainer w id s of
          (r, s') \<Rightarrow> (r, (s', log @ [CallInspectContainer id]))),
      RunWithOptions = (\<lambda>opts (s, log). case RunWithOptions w opts s of
          (r, s') \<Rightarrow> (r, (s', log @ [CallRunWithOptions opts]))),
      Retry = (\<lambda>op (s, log). case Retry w op s of
          (r, s') \<Rightarrow> (r, (s', log @ [CallRetry r])))\<rparr>"

fun retry_results :: "event list \<Rightarrow> error option list" where
  "retry_results [] = []"
| "retry_results (CallRetry r # es) = r # retry_results es"
| "retry_results (e # es) = retry_results es"

fun run_calls :: "event list \<Rightarrow> RunOptions list" where
  "run_calls [] = []"
| "run_calls (CallRunWithOptions opts # es) = opts # run_calls es"
| "run_calls (e # es) = run_calls es"

text \<open>A scripted test double: its state is the list of answers \<open>Retry\<close> still has to give; the
  other three operations give fixed answers.\<close>

definition scripted ::
  "APIContainers list \<times> error option \<Rightarrow> Container option \<times> error option \<Rightarrow>
   Resource option \<times> error option \<Rightarrow> (error option list) DockerWrapper" where
  "scripted listed inspected run =
     \<lparr>ListContainers = (\<lambda>opts s. (listed, s)),
      InspectContainer = (\<lambda>id s. (inspected, s)),
      RunWithOptions = (\<lambda>opts s. (run, s)),
      Retry = (\<lambda>op s. case s of [] \<Rightarrow> (None, []) | r # rs \<Rightarrow> (r, rs))\<rparr>"

subsection \<open>Fixtures of the package's tests\<close>

text \<open>The handle of \<open>Test_EndpointFor_OnlyRegisteredServices\<close> (services \<open>sqs\<close> and \<open>s3\<close>,
  port \<open>4566/tcp\<close> published at \<open>1.0.0.0:9566\<close>), and a stand-in for the SDK's default resolver.\<close>

definition test_handle :: Localstack where
  "test_handle =
     \<lparr>Resource = Some \<lparr>Container = Some \<lparr>ID = ''c0'', NetworkSettings = Some
         \<lparr>Ports = [''4566/tcp'' \<mapsto> [\<lparr>HostIP = ''1.0.0.0'', HostPort = ''9566''\<rparr>]]\<rparr>\<rparr>\<rparr>,
      Services = [\<lparr>Name = ''sqs'', Protocol = ''tcp'', Port = 4566\<rparr>,
                  \<lparr>Name = ''s3'', Protocol = ''tcp'', Port = 4566\<rparr>]\<rparr>"

definition test_default :: "string \<Rightarrow> string \<Rightarrow> unit list \<Rightarrow> ResolvedEndpoint \<times> error option" where
  "test_default service region optFns =
     (\<lparr>URL = ''https://'' @ service @ ''.'' @ region @ ''.amazonaws.com'', PartitionID = ''aws'',
       SigningRegion = region, SigningName = service, SigningNameDerived = True,
       SigningMethod = ''v4''\<rparr>, None)"

text \<open>The doubles of \<open>getLocalstackFound\<close> (one listed container of the right image, named
  \<open>/testLocalstackName\<close>, inspection succeeds) and of \<open>getLocalstackEmpty\<close> (nothing listed; the
  run returns \<open>&dockertest.Resource{}\<close>), and the Service Set \<open>{sqs, s3}\<close> of the tests.\<close>

definition test_services :: LocalstackServiceCollection where
  "test_services = [\<lparr>Name = ''sqs'', Protocol = ''tcp'', Port = 4566\<rparr>,
                    \<lparr>Name = ''s3'', Protocol = ''tcp'', Port = 4566\<rparr>]"

definition test_container :: Container where
  "test_container = \<lparr>ID = [], NetworkSettings = None\<rparr>"

definition getLocalstackFound :: "(error option list) DockerWrapper" where
  "getLocalstackFound =
     scripted ([\<lparr>ID_APIContainers = [], Image = LocalstackRepository @ '':'' @ LocalstackTag,
                 Names = [''/testLocalstackName'']\<rparr>], None)
              (Some test_container, None) (None, None)"

definition getLocalstackEmpty :: "(error option list) DockerWrapper" where
  "getLocalstackEmpty = scripted ([], None) (None, None) (Some \<lparr>Container = None\<rparr>, None)"

text \<open>The listings of \<open>Test_getLocalstack_ContainerExists_WithinMultiple\<close> (with a third
  container that repeats the name) and of
  \<open>Test_getLocalstack_ContainerExistsButHasDifferentName\<close>.\<close>

definition listedMultiple :: "APIContainers list" where
  "listedMultiple =
     [\<lparr>ID_APIContainers = ''id1'', Image = ''localstack/localstack:0.11.5'',
       Names = [''/testLocalstackName'']\<rparr>,
      \<lparr>ID_APIContainers = ''id2'', Image = ''localstack/localstack:0.11.5'',
       Names = [''/DummyContainer'']\<rparr>,
      \<lparr>ID_APIContainers = ''id3'', Image = ''localstack/localstack:0.11.5'',
       Names = [''/DummyContainer'']\<rparr>]"

definition listedDifferentName :: "APIContainers list" where
  "listedDifferentName =
     [\<lparr>ID_APIContainers = ''id1'', Image = ''localstack/localstack:0.11.5'',
       Names = [''DummyName'']\<rparr>]"

text \<open>A Service Set of seven descriptors, two of them named \<open>s3\<close> (on ports 4566 and 4572),
  and the order \<open>shellInsertionSort\<close> leaves it in.\<close>

definition unsorted7 :: LocalstackServiceCollection where
  "unsorted7 =
     [\<lparr>Name = ''s3'', Protocol = ''tcp'', Port = 4566\<rparr>,
      \<lparr>Name = ''s3'', Protocol = ''tcp'', Port = 4572\<rparr>,
      \<lparr>Name = ''sns'', Protocol = ''tcp'', Port = 4566\<rparr>,
      \<lparr>Name = ''sqs'', Protocol = ''tcp'', Port = 4566\<rparr>,
      \<lparr>Name = ''ssm'', Protocol = ''tcp'', Port = 4566\<rparr>,
      \<lparr>Name = ''sts'', Protocol = ''tcp'', Port = 4566\<rparr>,
      \<lparr>Name = ''iam'', Protocol = ''tcp'', Port = 4566\<rparr>]"

definition sorted7 :: LocalstackServiceCollection where
  "sorted7 =
     [\<lparr>Name = ''iam'', Protocol = ''tcp'', Port = 4566\<rparr>,
      \<lparr>Name = ''s3'', Protocol = ''tcp'', Port = 4572\<rparr>,
      \<lparr>Name = ''s3'', Protocol = ''tcp'', Port = 4566\<rparr>,
      \<lparr>Name = ''sns'', Protocol = ''tcp'', Port = 4566\<rparr>,
      \<lparr>Name = ''sqs'', Protocol = ''tcp'', Port = 4566\<rparr>,
      \<lparr>Name = ''ssm'', Protocol = ''tcp'', Port = 4566\<rparr>,
      \<lparr>Name = ''sts'', Protocol = ''tcp'', Port = 4566\<rparr>]"

section \<open>Properties\<close>

subsection \<open>Helper facts on descriptors\<close>

lemma showNat_4566: "showNat 4566 = ''4566''"
  by (simp add: showNat.simps [of 4566] showNat.simps [of 456] showNat.simps [of 45]
      showNat.simps [of 4] digit_char_def)

lemma NewLocalstackService_loop_mem:
  "name \<in> set ns \<Longrightarrow>
   NewLocalstackService_loop ns name = (Some \<lparr>Name = name, Protocol = ''tcp'', Port = 4566\<rparr>, None)"
  by (induction ns) auto

lemma NewLocalstackService_loop_not_mem:
  "name \<notin> set ns \<Longrightarrow>
   NewLocalstackService_loop ns name = (None, Some (''unknown Localstack Service: '' @ name))"
  by (induction ns) auto

lemma Contains_iff: "Contains collection name \<longleftrightarrow> name \<in> Name ` set collection"
  by (induction collection) auto


subsection \<open>C6: descriptor construction\<close>

text \<open>
  C6. For every name in the allow-list, \<open>NewLocalstackService\<close> returns a descriptor with that
  name, protocol \<open>tcp\<close> and port 4566 (and a nil error), and \<open>GetNamePort\<close> renders it as the
  name followed by \<open>:4566\<close>. For every other name it returns a nil descriptor and the error
  \<open>unknown Localstack Service: \<close> followed by the name. The function is one pass over the allow-list:
  it makes no call that could be retried.
\<close>

theorem NewLocalstackService_allow_list:
  "(name \<in> set services \<longrightarrow>
      NewLocalstackService name = (Some \<lparr>Name = name, Protocol = ''tcp'', Port = 4566\<rparr>, None) \<and>
      GetNamePort \<lparr>Name = name, Protocol = ''tcp'', Port = 4566\<rparr> = name @ '':4566'') \<and>
   (name \<notin> set services \<longrightarrow>
      NewLocalstackService name = (None, Some (''unknown Localstack Service: '' @ name)))"
  by (simp add: NewLocalstackService_def NewLocalstackService_loop_mem
      NewLocalstackService_loop_not_mem GetNamePort_def Sprintf_d_def showNat_4566)

theorem NewLocalstackService_allow_list_witness:
  "NewLocalstackService ''s3'' = (Some \<lparr>Name = ''s3'', Protocol = ''tcp'', Port = 4566\<rparr>, None) \<and>
   GetNamePort \<lparr>Name = ''s3'', Protocol = ''tcp'', Port = 4566\<rparr> = ''s3:4566'' \<and>
   NewLocalstackService ''ec2'' = (None, Some ''unknown Localstack Service: ec2'')"
  using NewLocalstackService_allow_list [of "''s3''"] NewLocalstackService_allow_list [of "''ec2''"]
  by (simp add: services_def)



subsection \<open>C3 and C10: endpoint resolution\<close>

lemma EndpointFor_range_Some:
  "service \<in> set keys \<Longrightarrow> Contains (Services ls) (map_index availableServices service) \<Longrightarrow>
   EndpointFor_range G ls service keys =
     Some (\<lparr>URL = ''http://'' @ G (Resource ls) ''4566/tcp'', PartitionID = [],
             SigningRegion = [], SigningName = [], SigningNameDerived = False,
             SigningMethod = []\<rparr>, None)"
  by (induction keys) auto

lemma EndpointFor_range_None:
  "service \<notin> set keys \<or> \<not> Contains (Services ls) (map_index availableServices service) \<Longrightarrow>
   EndpointFor_range G ls service keys = None"
  by (induction keys) auto

lemma dom_availableServices:
  "set keys = fst ` set availableServices \<Longrightarrow>
   service \<in> set keys \<longleftrightarrow> map_of availableServices service \<noteq> None"
  by (simp add: map_of_eq_None_iff)

text \<open>
  C3. Whatever order \<open>range\<close> visits the keys of \<open>availableServices\<close> in: when the service
  identifier is a key of the mapping and the descriptor name it maps to is in the handle's
  Service Set, \<open>EndpointFor\<close> returns the URL \<open>http://\<close> followed by the published host and port
  of \<open>4566/tcp\<close> (what \<open>GetHostPort\<close> gives) and a nil error; when the identifier is not a key,
  or the name it maps to is not in the Service Set, \<open>EndpointFor\<close> returns what the SDK's default
  resolver returns. The mapping sends \<open>streams.dynamodb\<close> to \<open>dynamodbstreams\<close>, \<open>email\<close> to
  \<open>ses\<close>, \<open>monitoring\<close> to \<open>cloudwatch\<close> and \<open>states\<close> to \<open>stepfunctions\<close>.
\<close>

theorem EndpointFor_gated:
  assumes "set keys = fst ` set availableServices"
  shows "(map_of availableServices service = Some d \<and> Contains (Services ls) d \<longrightarrow>
           EndpointFor G D keys ls service region optFns =
             (\<lparr>URL = ''http://'' @ G (Resource ls) ''4566/tcp'', PartitionID = [],
               SigningRegion = [], SigningName = [], SigningNameDerived = False,
               SigningMethod = []\<rparr>, None)) \<and>
         (map_of availableServices service = None \<or>
          (map_of availableServices service = Some d \<and> \<not> Contains (Services ls) d) \<longrightarrow>
           EndpointFor G D keys ls service region optFns = D service region optFns) \<and>
         map_of availableServices ''streams.dynamodb'' = Some ''dynamodbstreams'' \<and>
         map_of availableServices ''email'' = Some ''ses'' \<and>
         map_of availableServices ''monitoring'' = Some ''cloudwatch'' \<and>
         map_of availableServices ''states'' = Some ''stepfunctions''"
proof (intro conjI impI)
  assume a: "map_of availableServices service = Some d \<and> Contains (Services ls) d"
  then have "service \<in> set keys"
    using dom_availableServices [OF assms, of service] by simp
  moreover have "Contains (Services ls) (map_index availableServices service)"
    using a by (simp add: map_index_def)
  ultimately show "EndpointFor G D keys ls service region optFns =
      (\<lparr>URL = ''http://'' @ G (Resource ls) ''4566/tcp'', PartitionID = [],
        SigningRegion = [], SigningName = [], SigningNameDerived = False,
        SigningMethod = []\<rparr>, None)"
    by (simp add: EndpointFor_def EndpointFor_range_Some)
next
  assume a: "map_of availableServices service = None \<or>
    (map_of availableServices service = Some d \<and> \<not> Contains (Services ls) d)"
  then have "service \<notin> set keys \<or> \<not> Contains (Services ls) (map_index availableServices service)"
    using dom_availableServices [OF assms, of service] by (auto simp: map_index_def)
  then show "EndpointFor G D keys ls service region optFns = D service region optFns"
    by (simp add: EndpointFor_def EndpointFor_range_None)
qed (simp_all add: availableServices_def)


theorem EndpointFor_gated_witness:
  "EndpointFor GetHostPort test_default (map fst availableServices) test_handle ''sqs'' ''us-west-2'' [] =
     (\<lparr>URL = ''http://1.0.0.0:9566'', PartitionID = [], SigningRegion = [], SigningName = [],
       SigningNameDerived = False, SigningMethod = []\<rparr>, None) \<and>
   EndpointFor GetHostPort test_default (map fst availableServices) test_handle ''email'' ''us-west-2'' [] =
     test_default ''email'' ''us-west-2'' [] \<and>
   EndpointFor GetHostPort test_default (map fst availableServices) test_handle ''ec2'' ''us-west-2'' [] =
     test_default ''ec2'' ''us-west-2'' []"
  using EndpointFor_gated [of "map fst availableServices" "''sqs''" "''sqs''" test_handle
      GetHostPort test_default "''us-west-2''" "[]"]
    EndpointFor_gated [of "map fst availableServices" "''email''" "''ses''" test_handle
      GetHostPort test_default "''us-west-2''" "[]"]
    EndpointFor_gated [of "map fst availableServices" "''ec2''" "''ec2''" test_handle
      GetHostPort test_default "''us-west-2''" "[]"]
  by (simp add: availableServices_def test_handle_def GetHostPort_def JoinHostPort_def)

lemma Contains_built:
  assumes "\<forall>svc \<in> set collection. \<exists>n. NewLocalstackService n = (Some svc, None)"
  shows "Contains collection name \<longrightarrow> name \<in> set services"
proof
  assume "Contains collection name"
  then obtain svc where svc: "svc \<in> set collection" "Name svc = name"
    by (auto simp: Contains_iff)
  then obtain n where n: "NewLocalstackService n = (Some svc, None)"
    using assms by blast
  have "n \<in> set services"
  proof (rule ccontr)
    assume "n \<notin> set services"
    then show False
      using n by (simp add: NewLocalstackService_def NewLocalstackService_loop_not_mem)
  qed
  then have "svc = \<lparr>Name = n, Protocol = ''tcp'', Port = 4566\<rparr>"
    using n by (simp add: NewLocalstackService_def NewLocalstackService_loop_mem)
  then show "name \<in> set services"
    using svc \<open>n \<in> set services\<close> by simp
qed

text \<open>
  C10. The allow-list spells the secrets manager \<open>secrestmanager\<close>:
  \<open>NewLocalstackService\<close> rejects \<open>secretsmanager\<close> and accepts \<open>secrestmanager\<close>, while the
  resolver's mapping sends \<open>secretsmanager\<close> to the descriptor name \<open>secretsmanager\<close>. So for a
  handle whose Service Set holds only descriptors that \<open>NewLocalstackService\<close> returned,
  \<open>EndpointFor\<close> on \<open>secretsmanager\<close> always returns what the default resolver returns.
\<close>

theorem secretsmanager_mismatch:
  "NewLocalstackService ''secretsmanager'' = (None, Some ''unknown Localstack Service: secretsmanager'') \<and>
   NewLocalstackService ''secrestmanager'' =
     (Some \<lparr>Name = ''secrestmanager'', Protocol = ''tcp'', Port = 4566\<rparr>, None) \<and>
   map_of availableServices ''secretsmanager'' = Some ''secretsmanager'' \<and>
   ((\<forall>svc \<in> set (Services ls). \<exists>n. NewLocalstackService n = (Some svc, None)) \<longrightarrow>
      EndpointFor G D keys ls ''secretsmanager'' region optFns = D ''secretsmanager'' region optFns)"
proof (intro conjI impI)
  assume built: "\<forall>svc \<in> set (Services ls). \<exists>n. NewLocalstackService n = (Some svc, None)"
  have "''secretsmanager'' \<notin> set services"
    by (simp add: services_def)
  then have "\<not> Contains (Services ls) ''secretsmanager''"
    using Contains_built [OF built, of "''secretsmanager''"] by blast
  moreover have "map_index availableServices ''secretsmanager'' = ''secretsmanager''"
    by (simp add: map_index_def availableServices_def)
  ultimately show "EndpointFor G D keys ls ''secretsmanager'' region optFns =
      D ''secretsmanager'' region optFns"
    by (simp add: EndpointFor_def EndpointFor_range_None)
qed (simp_all add: NewLocalstackService_def services_def availableServices_def)

theorem secretsmanager_mismatch_witness:
  "(\<exists>n. NewLocalstackService n = (Some \<lparr>Name = ''sqs'', Protocol = ''tcp'', Port = 4566\<rparr>, None)) \<and>
   (\<exists>n. NewLocalstackService n = (Some \<lparr>Name = ''s3'', Protocol = ''tcp'', Port = 4566\<rparr>, None)) \<and>
   EndpointFor GetHostPort test_default (map fst availableServices) test_handle
       ''secretsmanager'' ''us-west-2'' [] =
     test_default ''secretsmanager'' ''us-west-2'' []"
proof -
  have sqs: "NewLocalstackService ''sqs'' = (Some \<lparr>Name = ''sqs'', Protocol = ''tcp'', Port = 4566\<rparr>, None)"
    by (simp add: NewLocalstackService_def services_def)
  have s3: "NewLocalstackService ''s3'' = (Some \<lparr>Name = ''s3'', Protocol = ''tcp'', Port = 4566\<rparr>, None)"
    by (simp add: NewLocalstackService_def services_def)
  have built: "\<forall>svc \<in> set (Services test_handle). \<exists>n. NewLocalstackService n = (Some svc, None)"
    using sqs s3 by (auto simp: test_handle_def)
  show ?thesis
    using secretsmanager_mismatch [of test_handle GetHostPort test_default
        "map fst availableServices" "''us-west-2''" "[]"] built sqs s3
    by blast
qed




subsection \<open>The lifecycle controller under a recording adapter\<close>

lemma run_calls_append: "run_calls (xs @ ys) = run_calls xs @ run_calls ys"
  by (induction xs rule: run_calls.induct) auto

lemma retry_results_append: "retry_results (xs @ ys) = retry_results xs @ retry_results ys"
  by (induction xs rule: retry_results.induct) auto

lemma recording_simps:
  "ListContainers (recording w) opts (s, log) =
     (fst (ListContainers w opts s), (snd (ListContainers w opts s), log @ [CallListContainers opts]))"
  "InspectContainer (recording w) i (s, log) =
     (fst (InspectContainer w i s), (snd (InspectContainer w i s), log @ [CallInspectContainer i]))"
  "RunWithOptions (recording w) ro (s, log) =
     (fst (RunWithOptions w ro s), (snd (RunWithOptions w ro s), log @ [CallRunWithOptions ro]))"
  "Retry (recording w) op (s, log) =
     (fst (Retry w op s), (snd (Retry w op s), log @ [CallRetry (fst (Retry w op s))]))"
  by (simp_all add: recording_def split: prod.splits)

text \<open>Discovery in terms of the first matching container.\<close>

lemma getLocalstack_names_eq:
  "getLocalstack_names w name c names s =
     (if ''/'' @ name \<in> set names then
        Some (case InspectContainer w (ID_APIContainers c) s of
           ((container, Some err), s') \<Rightarrow>
             ((None, Some (''unable to inspect container '' @ ID_APIContainers c @ '': '' @ err)), s')
         | ((container, None), s') \<Rightarrow> ((Some \<lparr>Container = container\<rparr>, None), s'))
      else None)"
  by (induction names) (auto split: prod.splits option.splits)

lemma getLocalstack_containers_eq:
  "getLocalstack_containers w name repository tag cs s =
     (case find (\<lambda>c. Image c = repository @ '':'' @ tag \<and> ''/'' @ name \<in> set (Names c)) cs of
        None \<Rightarrow> ((None, None), s)
      | Some c \<Rightarrow>
         (case InspectContainer w (ID_APIContainers c) s of
            ((container, Some err), s') \<Rightarrow>
              ((None, Some (''unable to inspect container '' @ ID_APIContainers c @ '': '' @ err)), s')
          | ((container, None), s') \<Rightarrow> ((Some \<lparr>Container = container\<rparr>, None), s')))"
  by (induction cs) (auto simp: getLocalstack_names_eq)

text \<open>The recording adapter answers as the adapter it wraps; discovery logs no run and no retry.\<close>

lemma getLocalstack_recording:
  "\<exists>evs. getLocalstack svcs (recording w) name repository tag (s, log) =
     (fst (getLocalstack svcs w name repository tag s),
      (snd (getLocalstack svcs w name repository tag s), log @ evs)) \<and>
     run_calls evs = [] \<and> retry_results evs = []"
proof (cases "name = []")
  case True
  then show ?thesis by (simp add: getLocalstack_def)
next
  case False
  obtain cs e s1 where l: "ListContainers w \<lparr>All_ListContainersOptions = True\<rparr> s = ((cs, e), s1)"
    by (metis prod.exhaust)
  show ?thesis
  proof (cases e)
    case (Some err)
    then show ?thesis
      using False l
      by (intro exI [of _ "[CallListContainers \<lparr>All_ListContainersOptions = True\<rparr>]"])
         (simp add: getLocalstack_def recording_simps)
  next
    case None
    show ?thesis
    proof (cases "find (\<lambda>c. Image c = repository @ '':'' @ tag \<and> ''/'' @ name \<in> set (Names c)) cs")
      case None': None
      then show ?thesis
        using False l None
        by (intro exI [of _ "[CallListContainers \<lparr>All_ListContainersOptions = True\<rparr>]"])
           (simp add: getLocalstack_def recording_simps getLocalstack_containers_eq)
    next
      case (Some c)
      then show ?thesis
        using False l None
        by (intro exI [of _ "[CallListContainers \<lparr>All_ListContainersOptions = True\<rparr>,
              CallInspectContainer (ID_APIContainers c)]"])
           (simp add: getLocalstack_def recording_simps getLocalstack_containers_eq
              split: prod.splits option.splits)
    qed
  qed
qed


lemma pollServices_recording:
  "\<exists>evs. pollServices (recording w) l svcs (s, log) =
     (fst (pollServices w l svcs s), (snd (pollServices w l svcs s), log @ evs)) \<and>
     run_calls evs = [] \<and>
     (case fst (pollServices w l svcs s) of
        None \<Rightarrow> retry_results evs = replicate (length svcs) None
      | Some err \<Rightarrow> \<exists>n e. n < length svcs \<and> retry_results evs = replicate n None @ [Some e] \<and>
          err = ''unable to connect to '' @ Name (svcs ! n) @ '': '' @ e)"
proof (induction svcs arbitrary: s log)
  case Nil
  then show ?case by simp
next
  case (Cons service rest)
  obtain r s1 where r: "Retry w (readinessCheck l) s = (r, s1)"
    by (metis prod.exhaust)
  show ?case
  proof (cases r)
    case (Some e)
    have "retry_results [CallRetry (Some e)] = replicate 0 None @ [Some e]"
      by simp
    then show ?thesis
      using r Some
      by (intro exI [of _ "[CallRetry (Some e)]"])
         (auto simp: recording_simps intro!: exI [of _ "0::nat"])
  next
    case None
    from Cons.IH [of s1 "log @ [CallRetry None]"]
    obtain evs where evs:
      "pollServices (recording w) l rest (s1, log @ [CallRetry None]) =
         (fst (pollServices w l rest s1), (snd (pollServices w l rest s1), (log @ [CallRetry None]) @ evs))"
      "run_calls evs = []"
      "(case fst (pollServices w l rest s1) of
          None \<Rightarrow> retry_results evs = replicate (length rest) None
        | Some err \<Rightarrow> \<exists>n e. n < length rest \<and> retry_results evs = replicate n None @ [Some e] \<and>
            err = ''unable to connect to '' @ Name (rest ! n) @ '': '' @ e)"
      by blast
    show ?thesis
    proof (intro exI [of _ "CallRetry None # evs"] conjI)
      show "pollServices (recording w) l (service # rest) (s, log) =
        (fst (pollServices w l (service # rest) s),
         snd (pollServices w l (service # rest) s), log @ CallRetry None # evs)"
        using r None evs(1) by (simp add: recording_simps)
      show "run_calls (CallRetry None # evs) = []"
        using evs(2) by simp
      show "case fst (pollServices w l (service # rest) s) of
          None \<Rightarrow> retry_results (CallRetry None # evs) = replicate (length (service # rest)) None
        | Some err \<Rightarrow> \<exists>n e. n < length (service # rest) \<and>
            retry_results (CallRetry None # evs) = replicate n None @ [Some e] \<and>
            err = ''unable to connect to '' @ Name ((service # rest) ! n) @ '': '' @ e"
      proof (cases "fst (pollServices w l rest s1)")
        case None': None
        then show ?thesis using r None evs(3) by simp
      next
        case (Some err)
        then obtain n e where ne: "n < length rest" "retry_results evs = replicate n None @ [Some e]"
          "err = ''unable to connect to '' @ Name (rest ! n) @ '': '' @ e"
          using evs(3) by auto
        then show ?thesis
          using r None Some
          by (auto intro!: exI [of _ "Suc n"] exI [of _ e])
      qed
    qed
  qed
qed

lemma resolveLocalstack_recording:
  "\<exists>evs. resolveLocalstack svcs (recording w) name repository tag data (s, log) =
     (fst (resolveLocalstack svcs w name repository tag data s),
      (snd (resolveLocalstack svcs w name repository tag data s), log @ evs)) \<and>
     retry_results evs = [] \<and>
     run_calls evs = (if fst (getLocalstack svcs w name repository tag s) = (None, None)
                      then [runOptions svcs name repository tag data] else [])"
proof -
  obtain evs where evs:
    "getLocalstack svcs (recording w) name repository tag (s, log) =
       (fst (getLocalstack svcs w name repository tag s),
        (snd (getLocalstack svcs w name repository tag s), log @ evs))"
    "run_calls evs = []" "retry_results evs = []"
    using getLocalstack_recording [of svcs w name repository tag s log] by blast
  obtain l e s1 where g: "getLocalstack svcs w name repository tag s = ((l, e), s1)"
    by (metis prod.exhaust)
  show ?thesis
  proof (cases "(l, e) = (None, None)")
    case False
    then show ?thesis
      using evs g
      by (intro exI [of _ evs]) (auto simp: resolveLocalstack_def split: option.splits)
  next
    case True
    then show ?thesis
      using evs g
      by (intro exI [of _ "evs @ [CallRunWithOptions (runOptions svcs name repository tag data)]"])
         (auto simp: resolveLocalstack_def recording_simps run_calls_append retry_results_append
            split: option.splits prod.splits)
  qed
qed

lemma newPersistentLocalstack_recording:
  "\<exists>evs1 evs2. newPersistentLocalstack svcs (recording w) name repository tag data (s, log) =
     (fst (newPersistentLocalstack svcs w name repository tag data s),
      (snd (newPersistentLocalstack svcs w name repository tag data s), log @ evs1 @ evs2)) \<and>
     retry_results evs1 = [] \<and>
     run_calls evs1 = (if fst (getLocalstack svcs w name repository tag s) = (None, None)
                       then [runOptions svcs name repository tag data] else []) \<and>
     run_calls evs2 = [] \<and>
     (case resolveLocalstack svcs w name repository tag data s of
        ((l, Some err), s2) \<Rightarrow> evs2 = []
      | ((l, None), s2) \<Rightarrow>
          (case fst (pollServices w l svcs s2) of
             None \<Rightarrow> retry_results evs2 = replicate (length svcs) None
           | Some err \<Rightarrow> \<exists>n e. n < length svcs \<and> retry_results evs2 = replicate n None @ [Some e] \<and>
               err = ''unable to connect to '' @ Name (svcs ! n) @ '': '' @ e))"
proof -
  obtain evs1 where evs1:
    "resolveLocalstack svcs (recording w) name repository tag data (s, log) =
     (fst (resolveLocalstack svcs w name repository tag data s),
      (snd (resolveLocalstack svcs w name repository tag data s), log @ evs1))"
    "retry_results evs1 = []"
    "run_calls evs1 = (if fst (getLocalstack svcs w name repository tag s) = (None, None)
                      then [runOptions svcs name repository tag data] else [])"
    using resolveLocalstack_recording [of svcs w name repository tag data s log] by blast
  obtain l e s2 where g: "resolveLocalstack svcs w name repository tag data s = ((l, e), s2)"
    by (metis prod.exhaust)
  show ?thesis
  proof (cases e)
    case (Some err)
    then show ?thesis
      using evs1 g
      by (intro exI [of _ evs1] exI [of _ "[]"]) (simp add: newPersistentLocalstack_def)
  next
    case None
    obtain evs2 where evs2:
      "pollServices (recording w) l svcs (s2, log @ evs1) =
        (fst (pollServices w l svcs s2), (snd (pollServices w l svcs s2), (log @ evs1) @ evs2))"
      "run_calls evs2 = []"
      "(case fst (pollServices w l svcs s2) of
        None \<Rightarrow> retry_results evs2 = replicate (length svcs) None
      | Some err \<Rightarrow> \<exists>n e. n < length svcs \<and> retry_results evs2 = replicate n None @ [Some e] \<and>
          err = ''unable to connect to '' @ Name (svcs ! n) @ '': '' @ e)"
      using pollServices_recording [of w l svcs s2 "log @ evs1"] by blast
    show ?thesis
      using evs1 g None evs2
      by (intro exI [of _ evs1] exI [of _ evs2])
         (auto simp: newPersistentLocalstack_def split: option.splits prod.splits)
  qed
qed


lemma run_calls_newPersistentLocalstack:
  "run_calls (snd (snd (newPersistentLocalstack svcs (recording w) name repository tag data (s, [])))) =
     (if fst (getLocalstack svcs w name repository tag s) = (None, None)
      then [runOptions svcs name repository tag data] else [])"
  using newPersistentLocalstack_recording [of svcs w name repository tag data s "[]"]
  by (auto simp: run_calls_append)

subsection \<open>C1: readiness polling\<close>

text \<open>
  C1. For every Service Set and every adapter (any implementation of the four operations, in
  any state), the calls of \<open>Retry\<close> that construction makes are these. When the resource was
  resolved without error, \<open>Retry\<close> is called once per service in collection order: either
  every call returns nil, there are as many calls as services and the handle is returned; or
  the call for the service at some index \<open>n\<close> is the first to return an error, it is the last
  call, and construction returns a nil handle with the error
  \<open>unable to connect to <name of that service>: <error>\<close>. When resolving the resource failed,
  \<open>Retry\<close> is not called at all and a nil handle with an error is returned.
\<close>

theorem readiness_polling:
  assumes "newPersistentLocalstack svcs (recording w) name repository tag data (s, []) =
             ((handle, err), (s', log))"
  shows "(snd (fst (resolveLocalstack svcs w name repository tag data s)) = None \<longrightarrow>
            (retry_results log = replicate (length svcs) None \<and> err = None \<and>
             handle = Some \<lparr>Resource = fst (fst (resolveLocalstack svcs w name repository tag data s)),
                             Services = svcs\<rparr>) \<or>
            (\<exists>n e. n < length svcs \<and> retry_results log = replicate n None @ [Some e] \<and>
               handle = None \<and>
               err = Some (''unable to connect to '' @ Name (svcs ! n) @ '': '' @ e))) \<and>
         (snd (fst (resolveLocalstack svcs w name repository tag data s)) \<noteq> None \<longrightarrow>
            retry_results log = [] \<and> handle = None \<and> err \<noteq> None)"
proof -
  obtain l e s2 where g: "resolveLocalstack svcs w name repository tag data s = ((l, e), s2)"
    by (metis prod.exhaust)
  from newPersistentLocalstack_recording [of svcs w name repository tag data s "[]"]
  show ?thesis
  proof (elim exE conjE, goal_cases)
    case (1 evs1 evs2)
    have log: "log = evs1 @ evs2"
      and res: "(handle, err) = fst (newPersistentLocalstack svcs w name repository tag data s)"
      using assms 1(1) by simp_all
    show ?case
    proof (cases e)
      case (Some x)
      then show ?thesis
        using g 1(2,5) log res
        by (simp add: newPersistentLocalstack_def retry_results_append)
    next
      case None
      obtain r s3 where p: "pollServices w l svcs s2 = (r, s3)"
        by (metis prod.exhaust)
      show ?thesis
      proof (cases r)
        case None': None
        then show ?thesis
          using g None p 1(2,5) log res
          by (simp add: newPersistentLocalstack_def retry_results_append)
      next
        case (Some x)
        then show ?thesis
          using g None p 1(2,5) log res
          by (auto simp: newPersistentLocalstack_def retry_results_append)
      qed
    qed
  qed
qed


lemmas fixture_defs = newPersistentLocalstack_def resolveLocalstack_def getLocalstack_def
  recording_def scripted_def getLocalstackFound_def getLocalstackEmpty_def test_services_def
  test_container_def LocalstackRepository_def LocalstackTag_def

theorem readiness_polling_witness:
  "newPersistentLocalstack test_services (recording getLocalstackFound) ''testLocalstackName''
      LocalstackRepository LocalstackTag [] ([None, Some ''dummyError''], []) =
     ((None, Some ''unable to connect to s3: dummyError''),
      ([], [CallListContainers \<lparr>All_ListContainersOptions = True\<rparr>, CallInspectContainer [],
            CallRetry None, CallRetry (Some ''dummyError'')])) \<and>
   snd (fst (resolveLocalstack test_services getLocalstackFound ''testLocalstackName''
      LocalstackRepository LocalstackTag [] [None, Some ''dummyError''])) = None \<and>
   retry_results [CallListContainers \<lparr>All_ListContainersOptions = True\<rparr>, CallInspectContainer [],
            CallRetry None, CallRetry (Some ''dummyError'')] = replicate 1 None @ [Some ''dummyError''] \<and>
   Name (test_services ! 1) = ''s3''"
proof -
  have run: "newPersistentLocalstack test_services (recording getLocalstackFound) ''testLocalstackName''
      LocalstackRepository LocalstackTag [] ([None, Some ''dummyError''], []) =
     ((None, Some ''unable to connect to s3: dummyError''),
      ([], [CallListContainers \<lparr>All_ListContainersOptions = True\<rparr>, CallInspectContainer [],
            CallRetry None, CallRetry (Some ''dummyError'')]))"
    by (simp add: fixture_defs)
  have res: "snd (fst (resolveLocalstack test_services getLocalstackFound ''testLocalstackName''
      LocalstackRepository LocalstackTag [] [None, Some ''dummyError''])) = None"
    by (simp add: fixture_defs)
  show ?thesis
    using readiness_polling [OF run] res run by (simp add: test_services_def)
qed


subsection \<open>C2: container discovery\<close>

text \<open>
  C2. For a non-empty name and a listing that succeeded: if some listed container has the
  image \<open>repository:tag\<close> and \<open>/name\<close> among its names, and inspecting the first such
  container in list order succeeds, then \<open>getLocalstack\<close> returns the resource wrapping the
  inspected container, and construction never calls \<open>RunWithOptions\<close>; if no listed container
  has both, \<open>getLocalstack\<close> returns a nil resource and a nil error, and construction takes the
  creation path: it calls \<open>RunWithOptions\<close> exactly once.
\<close>

theorem getLocalstack_discovery:
  assumes "name \<noteq> []"
    and "ListContainers w \<lparr>All_ListContainersOptions = True\<rparr> s = ((containers, None), s1)"
  shows "(find (\<lambda>c. Image c = repository @ '':'' @ tag \<and> ''/'' @ name \<in> set (Names c)) containers = Some c \<and>
          InspectContainer w (ID_APIContainers c) s1 = ((container, None), s2) \<longrightarrow>
            getLocalstack svcs w name repository tag s = ((Some \<lparr>Container = container\<rparr>, None), s2) \<and>
            run_calls (snd (snd (newPersistentLocalstack svcs (recording w) name repository tag data (s, [])))) = []) \<and>
         (find (\<lambda>c. Image c = repository @ '':'' @ tag \<and> ''/'' @ name \<in> set (Names c)) containers = None \<longrightarrow>
            getLocalstack svcs w name repository tag s = ((None, None), s1) \<and>
            run_calls (snd (snd (newPersistentLocalstack svcs (recording w) name repository tag data (s, [])))) =
              [runOptions svcs name repository tag data])"
  using assms
  by (simp add: run_calls_newPersistentLocalstack getLocalstack_def getLocalstack_containers_eq)

theorem getLocalstack_discovery_witness:
  "find (\<lambda>c. Image c = LocalstackRepository @ '':'' @ LocalstackTag \<and>
              ''/'' @ ''DummyContainer'' \<in> set (Names c)) listedMultiple =
     Some \<lparr>ID_APIContainers = ''id2'', Image = ''localstack/localstack:0.11.5'',
           Names = [''/DummyContainer'']\<rparr> \<and>
   getLocalstack test_services
     (scripted (listedMultiple, None) (Some test_container, None) (None, None))
     ''DummyContainer'' LocalstackRepository LocalstackTag [] =
       ((Some \<lparr>Container = Some test_container\<rparr>, None), []) \<and>
   run_calls (snd (snd (newPersistentLocalstack test_services
     (recording (scripted (listedMultiple, None) (Some test_container, None) (None, None)))
     ''DummyContainer'' LocalstackRepository LocalstackTag [] ([], [])))) = [] \<and>
   getLocalstack test_services
     (scripted (listedDifferentName, None) (Some test_container, None) (None, None))
     ''testLocalstackName'' LocalstackRepository LocalstackTag [] = ((None, None), []) \<and>
   run_calls (snd (snd (newPersistentLocalstack test_services
     (recording (scripted (listedDifferentName, None) (Some test_container, None) (None, None)))
     ''testLocalstackName'' LocalstackRepository LocalstackTag [] ([], [])))) =
     [runOptions test_services ''testLocalstackName'' LocalstackRepository LocalstackTag []]"
  using getLocalstack_discovery [of "''DummyContainer''"
      "scripted (listedMultiple, None) (Some test_container, None) (None, None)" "[]"
      listedMultiple "[]" LocalstackRepository LocalstackTag
      "\<lparr>ID_APIContainers = ''id2'', Image = ''localstack/localstack:0.11.5'',
        Names = [''/DummyContainer'']\<rparr>"
      "Some test_container" "[]" test_services "[]"]
    getLocalstack_discovery [of "''testLocalstackName''"
      "scripted (listedDifferentName, None) (Some test_container, None) (None, None)" "[]"
      listedDifferentName "[]" LocalstackRepository LocalstackTag
      "\<lparr>ID_APIContainers = ''id1'', Image = ''localstack/localstack:0.11.5'',
        Names = [''DummyName'']\<rparr>"
      "Some test_container" "[]" test_services "[]"]
  by (simp add: scripted_def LocalstackRepository_def LocalstackTag_def listedMultiple_def
      listedDifferentName_def)

subsection \<open>C7: failures give no handle\<close>

text \<open>
  C7. If listing the containers fails, or inspecting the matched container fails, or starting
  a fresh container fails, construction returns a nil handle and the adapter's error wrapped
  with its context (\<open>unable to retrieve docker containers\<close>, \<open>unable to inspect container\<close>
  with the container id, \<open>could not start resource\<close>). On every input the handle is nil exactly
  when the error is not: no failure returns a usable handle.
\<close>

theorem construction_failures:
  "(name \<noteq> [] \<and> ListContainers w \<lparr>All_ListContainersOptions = True\<rparr> s = ((containers, Some e), s1) \<longrightarrow>
      newPersistentLocalstack svcs w name repository tag data s =
        ((None, Some (''unable to retrieve docker containers: '' @ e)), s1)) \<and>
   (name \<noteq> [] \<and> ListContainers w \<lparr>All_ListContainersOptions = True\<rparr> s = ((containers, None), s1) \<and>
    find (\<lambda>c. Image c = repository @ '':'' @ tag \<and> ''/'' @ name \<in> set (Names c)) containers = Some c \<and>
    InspectContainer w (ID_APIContainers c) s1 = ((container, Some e), s2) \<longrightarrow>
      newPersistentLocalstack svcs w name repository tag data s =
        ((None, Some (''unable to inspect container '' @ ID_APIContainers c @ '': '' @ e)), s2)) \<and>
   (getLocalstack svcs w name repository tag s = ((None, None), s1) \<and>
    RunWithOptions w (runOptions svcs name repository tag data) s1 = ((r, Some e), s2) \<longrightarrow>
      newPersistentLocalstack svcs w name repository tag data s =
        ((None, Some (''could not start resource: '' @ e)), s2)) \<and>
   (fst (fst (newPersistentLocalstack svcs w name repository tag data s)) = None \<longleftrightarrow>
    snd (fst (newPersistentLocalstack svcs w name repository tag data s)) \<noteq> None)"
proof (intro conjI impI)
  show "(fst (fst (newPersistentLocalstack svcs w name repository tag data s)) = None) =
        (snd (fst (newPersistentLocalstack svcs w name repository tag data s)) \<noteq> None)"
    by (simp add: newPersistentLocalstack_def split: prod.splits option.splits)
qed (simp_all add: newPersistentLocalstack_def resolveLocalstack_def getLocalstack_def
      getLocalstack_containers_eq)


theorem construction_failures_witness:
  "newPersistentLocalstack test_services
     (scripted ([], Some ''dummy Error'') (None, None) (None, None))
     ''testLocalstackName'' LocalstackRepository LocalstackTag [] [] =
     ((None, Some ''unable to retrieve docker containers: dummy Error''), []) \<and>
   newPersistentLocalstack test_services
     (scripted (listedMultiple, None) (None, Some ''dummy Error'') (None, None))
     ''DummyContainer'' LocalstackRepository LocalstackTag [] [] =
     ((None, Some ''unable to inspect container id2: dummy Error''), []) \<and>
   newPersistentLocalstack test_services
     (scripted ([], None) (None, None) (None, Some ''dummy Error''))
     ''testLocalstackName'' LocalstackRepository LocalstackTag [] [] =
     ((None, Some ''could not start resource: dummy Error''), [])"
  using construction_failures [of "''testLocalstackName''"
      "scripted ([], Some ''dummy Error'') (None, None) (None, None)" "[]" "[]"
      "''dummy Error''" "[]" test_services LocalstackRepository LocalstackTag "[]"
      "\<lparr>ID_APIContainers = [], Image = [], Names = []\<rparr>" None "[]" None]
    construction_failures [of "''DummyContainer''"
      "scripted (listedMultiple, None) (None, Some ''dummy Error'') (None, None)" "[]"
      listedMultiple "''dummy Error''" "[]" test_services LocalstackRepository LocalstackTag "[]"
      "\<lparr>ID_APIContainers = ''id2'', Image = ''localstack/localstack:0.11.5'',
        Names = [''/DummyContainer'']\<rparr>" None "[]" None]
    construction_failures [of "''testLocalstackName''"
      "scripted ([], None) (None, None) (None, Some ''dummy Error'')" "[]" "[]"
      "''dummy Error''" "[]" test_services LocalstackRepository LocalstackTag "[]"
      "\<lparr>ID_APIContainers = [], Image = [], Names = []\<rparr>" None "[]" None]
  by (simp add: scripted_def LocalstackRepository_def LocalstackTag_def listedMultiple_def
      getLocalstack_def)

subsection \<open>C4: run options of the creation path\<close>

text \<open>The run options of the creation path.\<close>

lemma newPersistentLocalstack_run_options:
  assumes "fst (getLocalstack svcs w name repository tag s) = (None, None)"
  shows "\<exists>options. run_calls (snd (snd (newPersistentLocalstack svcs (recording w) name repository tag
            data (s, [])))) = [options] \<and>
          Repository options = repository \<and> Tag options = tag \<and> Name_RunOptions options = name \<and>
          Env options = (''SERVICES='' @ GetServiceMap svcs) #
            (if data \<noteq> [] then [''DATA_DIR='' @ data] else []) \<and>
          Mounts options = (if data \<noteq> [] then [''/tmp/localstack/data:/tmp/localstack/data''] else [])"
  using assms by (simp add: run_calls_newPersistentLocalstack runOptions_def)

lemma pollServices_v0_recording:
  "\<exists>evs. pollServices_v0 (recording w) l svcs (s, log) =
     (fst (pollServices_v0 w l svcs s), (snd (pollServices_v0 w l svcs s), log @ evs)) \<and>
     run_calls evs = []"
proof (induction svcs arbitrary: s log)
  case Nil
  then show ?case by simp
next
  case (Cons service rest)
  obtain r s1 where r: "Retry w (readinessCheck_v0 l) s = (r, s1)"
    by (metis prod.exhaust)
  show ?case
  proof (cases r)
    case (Some e)
    then show ?thesis
      using r by (intro exI [of _ "[CallRetry (Some e)]"]) (simp add: recording_simps)
  next
    case None
    from Cons.IH [of s1 "log @ [CallRetry None]"]
    show ?thesis
    proof (elim exE conjE, goal_cases)
      case (1 evs)
      then show ?case
        using r None
        by (intro exI [of _ "CallRetry None # evs"]) (simp add: recording_simps)
    qed
  qed
qed

text \<open>
  C4. When discovery finds no container, \<open>newPersistentLocalstack\<close> of
  \<open>pkg/localstack/localstack.go\<close> calls \<open>RunWithOptions\<close> once with the options the claim
  describes (lemma \<open>newPersistentLocalstack_run_options\<close>). The exported constructor
  \<open>NewPersistentLocalstack\<close> of the second file does not: called with the data directory
  \<open>/tmp/localstack/data\<close> it drops the argument, so the one call of \<open>RunWithOptions\<close> has the
  environment \<open>SERVICES=...\<close> alone and no mount, for every Service Set and adapter, while the
  same constructor of \<open>pkg/localstack/localstack.go\<close> passes \<open>DATA_DIR\<close> and the mount.
\<close>

theorem NewPersistentLocalstack_v0_ignores_data:
  "run_calls (snd (snd (NewPersistentLocalstack_v0 (recording w) svcs ''/tmp/localstack/data'' (s, [])))) =
     [\<lparr>Repository = ''localstack/localstack'', Tag = ''latest'', Name_RunOptions = [],
       Env = [''SERVICES='' @ GetServiceMap svcs], Mounts = [],
       PortBindings = [(''4566'', [\<lparr>HostIP = [], HostPort = ''4566''\<rparr>])],
       ExposedPorts = [''4566'']\<rparr>] \<and>
   run_calls (snd (snd (NewPersistentLocalstack (recording w) svcs ''/tmp/localstack/data'' (s, [])))) =
     [\<lparr>Repository = ''localstack/localstack'', Tag = ''latest'', Name_RunOptions = [],
       Env = [''SERVICES='' @ GetServiceMap svcs, ''DATA_DIR=/tmp/localstack/data''],
       Mounts = [''/tmp/localstack/data:/tmp/localstack/data''],
       PortBindings = [], ExposedPorts = []\<rparr>]"
proof
  obtain r e s1 where run: "RunWithOptions w (runOptions_v0 svcs [] Localstack_Repository ''latest'' []) s =
      ((r, e), s1)"
    by (metis prod.exhaust)
  show "run_calls (snd (snd (NewPersistentLocalstack_v0 (recording w) svcs ''/tmp/localstack/data'' (s, [])))) =
     [\<lparr>Repository = ''localstack/localstack'', Tag = ''latest'', Name_RunOptions = [],
       Env = [''SERVICES='' @ GetServiceMap svcs], Mounts = [],
       PortBindings = [(''4566'', [\<lparr>HostIP = [], HostPort = ''4566''\<rparr>])],
       ExposedPorts = [''4566'']\<rparr>]"
  proof (cases e)
    case (Some err)
    then show ?thesis
      using run
      by (simp add: NewPersistentLocalstack_v0_def NewSpecificLocalstack_v0_def
          NewPersistentSpecificLocalstack_v0_def newPersistentLocalstack_v0_def
          resolveLocalstack_v0_def getLocalstack_v0_def recording_simps runOptions_v0_def
          Localstack_Repository_def)
  next
    case None
    from pollServices_v0_recording [of w r svcs s1
        "[CallRunWithOptions (runOptions_v0 svcs [] Localstack_Repository ''latest'' [])]"]
    show ?thesis
    proof (elim exE conjE, goal_cases)
      case (1 evs)
      then show ?case
        using run None
        by (simp add: NewPersistentLocalstack_v0_def NewSpecificLocalstack_v0_def
            NewPersistentSpecificLocalstack_v0_def newPersistentLocalstack_v0_def
            resolveLocalstack_v0_def getLocalstack_v0_def recording_simps runOptions_v0_def
            Localstack_Repository_def run_calls_append split: option.splits prod.splits)
    qed
  qed
next
  have "fst (getLocalstack svcs w [] LocalstackRepository ''latest'' s) = (None, None)"
    by (simp add: getLocalstack_def)
  then show "run_calls (snd (snd (NewPersistentLocalstack (recording w) svcs ''/tmp/localstack/data'' (s, [])))) =
     [\<lparr>Repository = ''localstack/localstack'', Tag = ''latest'', Name_RunOptions = [],
       Env = [''SERVICES='' @ GetServiceMap svcs, ''DATA_DIR=/tmp/localstack/data''],
       Mounts = [''/tmp/localstack/data:/tmp/localstack/data''],
       PortBindings = [], ExposedPorts = []\<rparr>]"
    by (simp add: NewPersistentLocalstack_def NewPersistentSpecificLocalstack_def
        run_calls_newPersistentLocalstack runOptions_def LocalstackRepository_def)
qed



subsection \<open>C9: the session configuration\<close>

text \<open>
  C9. For every handle, whatever its Service Set, \<open>CreateAWSSession\<close> hands the SDK one
  configuration: region \<open>us-east-1\<close>, SSL disabled, S3 path-style addressing forced, the
  static credentials \<open>("a", "b", "c")\<close>, and as endpoint resolver the handle itself (not nil).
  The session is whatever \<open>session.Must(session.NewSession(...))\<close> makes of that configuration.
\<close>

theorem CreateAWSSession_configuration:
  "CreateAWSSession (\<lambda>cfgs. (cfgs, None)) ls =
     Return [\<lparr>Region = Some ''us-east-1'', EndpointResolver = Some ls, DisableSSL = Some True,
              S3ForcePathStyle = Some True,
              Credentials = Some (NewStaticCredentials ''a'' ''b'' ''c'')\<rparr>] \<and>
   (\<forall>NewSession :: aws_Config list \<Rightarrow> 'sess \<times> error option.
      CreateAWSSession NewSession ls =
        session_Must (NewSession
          [\<lparr>Region = Some ''us-east-1'', EndpointResolver = Some ls, DisableSSL = Some True,
            S3ForcePathStyle = Some True,
            Credentials = Some (NewStaticCredentials ''a'' ''b'' ''c'')\<rparr>]))"
  by (simp add: CreateAWSSession_def session_Must_def)



subsection \<open>C5: the readiness predicate\<close>

lemma strings_Contains_sublist: "strings_Contains s substr \<longleftrightarrow> sublist substr s"
  by (induction s) (auto simp: sublist_Cons_right)

lemma sublist_drop_prefix:
  assumes "sublist w (p @ s)" "w \<noteq> []" "hd w \<notin> set p"
  shows "sublist w s"
  using assms
proof (induction p)
  case Nil
  then show ?case by simp
next
  case (Cons a p)
  from Cons.prems have "prefix w (a # p @ s) \<or> sublist w (p @ s)"
    by (simp add: sublist_Cons_right)
  moreover have "\<not> prefix w (a # p @ s)"
    using Cons.prems(2,3) by (cases w) auto
  ultimately show ?case
    using Cons by simp
qed

lemma sublist_drop_suffix:
  assumes "sublist w (s @ q)" "w \<noteq> []" "last w \<notin> set q"
  shows "sublist w s"
proof -
  have "sublist (rev w) (rev q @ rev s)"
    using assms(1) by (metis rev_append sublist_rev)
  moreover have "hd (rev w) \<notin> set (rev q)"
    using assms(2,3) by (simp add: hd_rev)
  ultimately have "sublist (rev w) (rev s)"
    using assms(2) sublist_drop_prefix by (metis rev_is_Nil_conv)
  then show ?thesis
    by (simp add: sublist_rev)
qed

lemma Ready_not_space: "set ''Ready.'' \<inter> spaceBytes = {}"
  by (simp add: spaceBytes_def whiteSpace_def)

lemma TrimLeftSpace_drop:
  "\<exists>k. TrimLeftSpace s = drop k s \<and> set (take k s) \<subseteq> spaceBytes"
proof (induction s rule: TrimLeftSpace.induct)
  case (1 s)
  show ?case
  proof (cases "find (\<lambda>w. prefix w s) whiteSpace")
    case None
    then show ?thesis
      by (intro exI [of _ 0]) (simp add: TrimLeftSpace.simps [of s])
  next
    case (Some w)
    then have w: "w \<in> set whiteSpace" "prefix w s"
      by (auto simp: find_Some_iff)
    show ?thesis
    proof (cases "w = []")
      case True
      then show ?thesis
        using Some by (intro exI [of _ 0]) (simp add: TrimLeftSpace.simps [of s])
    next
      case False
      from 1 [OF Some False] obtain k where k:
        "TrimLeftSpace (drop (length w) s) = drop k (drop (length w) s)"
        "set (take k (drop (length w) s)) \<subseteq> spaceBytes"
        by blast
      have tw: "take (length w) s = w"
        using w(2) by (auto simp: prefix_def)
      have "take (k + length w) s = w @ take k (drop (length w) s)"
        using tw by (metis add.commute take_add)
      moreover have "set w \<subseteq> spaceBytes"
        using w(1) by (auto simp: spaceBytes_def)
      ultimately have "set (take (k + length w) s) \<subseteq> spaceBytes"
        using k(2) by simp
      moreover have "TrimLeftSpace s = drop (k + length w) s"
        using Some False k(1) by (simp add: TrimLeftSpace.simps [of s])
      ultimately show ?thesis by blast
    qed
  qed
qed

lemma TrimRightSpace_take:
  "\<exists>k. TrimRightSpace s = take k s \<and> set (drop k s) \<subseteq> spaceBytes"
proof (induction s rule: TrimRightSpace.induct)
  case (1 s)
  show ?case
  proof (cases "find (\<lambda>w. suffix w s) whiteSpace")
    case None
    then show ?thesis
      by (intro exI [of _ "length s"]) (simp add: TrimRightSpace.simps [of s])
  next
    case (Some w)
    then have w: "w \<in> set whiteSpace" "suffix w s"
      by (auto simp: find_Some_iff)
    show ?thesis
    proof (cases "w = []")
      case True
      then show ?thesis
        using Some by (intro exI [of _ "length s"]) (simp add: TrimRightSpace.simps [of s])
    next
      case False
      let ?s' = "take (length s - length w) s"
      from 1 [OF Some False] obtain k where k:
        "TrimRightSpace ?s' = take k ?s'" "set (drop k ?s') \<subseteq> spaceBytes"
        by blast
      have s: "s = ?s' @ w"
        using w(2) by (auto simp: suffix_def)
      have "drop (min k (length s - length w)) s = drop k ?s' @ w"
      proof -
        have "drop (min k (length s - length w)) (?s' @ w) = drop k ?s' @ w"
          by (cases "k \<le> length s - length w") (auto simp: min_def)
        then show ?thesis using s by simp
      qed
      moreover have "set w \<subseteq> spaceBytes"
        using w(1) by (auto simp: spaceBytes_def)
      ultimately have "set (drop (min k (length s - length w)) s) \<subseteq> spaceBytes"
        using k(2) by simp
      moreover have "TrimRightSpace s = take (min k (length s - length w)) s"
        using Some False k(1) by (simp add: TrimRightSpace.simps [of s] min.commute)
      ultimately show ?thesis by blast
    qed
  qed
qed

lemma R_not_space: "CHR ''R'' \<notin> spaceBytes"
  by (simp add: spaceBytes_def whiteSpace_def)

lemma dot_not_space: "CHR ''.'' \<notin> spaceBytes"
  by (simp add: spaceBytes_def whiteSpace_def)

lemma Ready_sublist_append_left:
  assumes "set p \<subseteq> spaceBytes"
  shows "sublist ''Ready.'' (p @ s) \<longleftrightarrow> sublist ''Ready.'' s"
proof
  assume a: "sublist ''Ready.'' (p @ s)"
  have "hd ''Ready.'' \<notin> set p"
    using assms R_not_space by auto
  then show "sublist ''Ready.'' s"
    using a by (intro sublist_drop_prefix [of "''Ready.''" p s]) simp_all
next
  assume "sublist ''Ready.'' s"
  then show "sublist ''Ready.'' (p @ s)"
    by (rule sublist_order.order_trans [OF _ sublist_append_leftI])
qed

lemma Ready_sublist_append_right:
  assumes "set q \<subseteq> spaceBytes"
  shows "sublist ''Ready.'' (s @ q) \<longleftrightarrow> sublist ''Ready.'' s"
proof
  assume a: "sublist ''Ready.'' (s @ q)"
  have "last ''Ready.'' \<notin> set q"
    using assms dot_not_space by auto
  then show "sublist ''Ready.'' s"
    using a by (intro sublist_drop_suffix [of "''Ready.''" s q]) simp_all
next
  assume "sublist ''Ready.'' s"
  then show "sublist ''Ready.'' (s @ q)"
    by (rule sublist_order.order_trans [OF _ sublist_append_rightI])
qed

lemma Contains_TrimSpace_Ready:
  "strings_Contains (TrimSpace s) ''Ready.'' \<longleftrightarrow> strings_Contains s ''Ready.''"
proof -
  obtain k where k: "TrimLeftSpace s = drop k s" "set (take k s) \<subseteq> spaceBytes"
    using TrimLeftSpace_drop by blast
  obtain m where m: "TrimRightSpace (drop k s) = take m (drop k s)"
    "set (drop m (drop k s)) \<subseteq> spaceBytes"
    using TrimRightSpace_take by blast
  have "sublist ''Ready.'' s \<longleftrightarrow> sublist ''Ready.'' (take k s @ drop k s)"
    by (simp only: append_take_drop_id)
  also have "\<dots> \<longleftrightarrow> sublist ''Ready.'' (drop k s)"
    by (rule Ready_sublist_append_left [OF k(2)])
  also have "\<dots> \<longleftrightarrow> sublist ''Ready.'' (take m (drop k s) @ drop m (drop k s))"
    by (simp only: append_take_drop_id)
  also have "\<dots> \<longleftrightarrow> sublist ''Ready.'' (take m (drop k s))"
    by (rule Ready_sublist_append_right [OF m(2)])
  finally show ?thesis
    using k(1) m(1) by (simp add: strings_Contains_sublist TrimSpace_def)
qed

lemma Contains_dropCR_Ready:
  "strings_Contains (dropCR s) ''Ready.'' \<longleftrightarrow> strings_Contains s ''Ready.''"
proof (cases "s \<noteq> [] \<and> last s = CHR 0x0D")
  case False
  then show ?thesis by (auto simp: dropCR_def)
next
  case True
  then have s: "s = butlast s @ [CHR 0x0D]"
    by (metis append_butlast_last_id)
  have "sublist ''Ready.'' s \<longleftrightarrow> sublist ''Ready.'' (butlast s)"
  proof
    assume "sublist ''Ready.'' s"
    then have "sublist ''Ready.'' (butlast s @ [CHR 0x0D])" using s by simp
    then show "sublist ''Ready.'' (butlast s)"
      by (intro sublist_drop_suffix [of "''Ready.''" "butlast s" "[CHR 0x0D]"]) simp_all
  next
    assume "sublist ''Ready.'' (butlast s)"
    then have "sublist ''Ready.'' (butlast s @ [CHR 0x0D])"
      by (rule sublist_order.order_trans [OF _ sublist_append_rightI])
    then show "sublist ''Ready.'' s"
      using s by simp
  qed
  then show ?thesis
    using True by (simp add: dropCR_def strings_Contains_sublist)
qed


lemma line_ready_iff: "line_ready line \<longleftrightarrow> sublist ''Ready.'' line"
  unfolding line_ready_def Contains_TrimSpace_Ready by (rule strings_Contains_sublist)

lemma token_ready:
  "strings_Contains (TrimSpace (TrimSpace (dropCR line))) ''Ready.'' \<longleftrightarrow> line_ready line"
  by (simp add: line_ready_def Contains_TrimSpace_Ready Contains_dropCR_Ready)

lemma scanLoop_find:
  "scanLoop buf =
     (case find (\<lambda>l. MaxScanTokenSize \<le> length l \<or> line_ready l) (splitLines buf) of
        None \<Rightarrow> Some ''not Ready''
      | Some l \<Rightarrow> if MaxScanTokenSize \<le> length l
                  then Some ''reading input: bufio.Scanner: token too long'' else None)"
proof (induction buf rule: scanLoop.induct)
  case (1 rest)
  show ?case
  proof (cases "rest = []")
    case True
    then show ?thesis
      by (simp add: scanLoop.simps [of "[]"] splitLines.simps [of "[]"] Scan_def)
  next
    case False
    define line where "line = takeWhile (\<lambda>c. c \<noteq> newline) rest"
    have sl: "splitLines rest = line # splitLines (drop (length line + 1) rest)"
      using False by (simp add: splitLines.simps [of rest] line_def Let_def)
    show ?thesis
    proof (cases "MaxScanTokenSize \<le> length line")
      case True
      then have "Scan rest = ScanErr ''bufio.Scanner: token too long''"
        using False by (simp add: Scan_def line_def Let_def)
      then show ?thesis
        using True sl by (simp add: scanLoop.simps [of rest])
    next
      case short: False
      then have sc: "Scan rest = Token (dropCR line) (drop (length line + 1) rest)"
        using False by (simp add: Scan_def line_def Let_def)
      show ?thesis
      proof (cases "line_ready line")
        case True
        then show ?thesis
          using sc sl short by (simp add: scanLoop.simps [of rest] token_ready)
      next
        case False
        then have "\<not> strings_Contains (TrimSpace (TrimSpace (dropCR line))) ''Ready.''"
          by (simp add: token_ready)
        from 1 [OF sc refl refl this]
        show ?thesis
          using sc sl short False by (simp add: scanLoop.simps [of rest] token_ready)
      qed
    qed
  qed
qed

text \<open>
  C5, as amended. Take a run of the closure in which a docker client is created and the logs
  are retrieved into the buffer. The first line that is \<open>MaxScanTokenSize\<close> (65536) bytes or
  longer, or that contains \<open>Ready.\<close> once trimmed, decides: the check returns nil at a ready
  line, \<open>reading input: bufio.Scanner: token too long\<close> at a line that long, and \<open>not Ready\<close>
  when there is no such line. So for every buffer whose lines are all shorter than 65536
  bytes, the check succeeds exactly when some line, trimmed, contains \<open>Ready.\<close>, and it
  reports \<open>not Ready\<close> when none does.
\<close>

theorem readinessCheck_lines:
  assumes "NewClientFromEnv env = None"
    and "client_Logs env \<lparr>Container_LogsOptions = ID c, RawTerminal = True, Stdout = True,
           Stderr = True\<rparr> = (buffer, None)"
  shows "readinessCheck (Some \<lparr>Container = Some c\<rparr>) env =
           Return (case find (\<lambda>l. MaxScanTokenSize \<le> length l \<or> line_ready l) (splitLines buffer) of
                     None \<Rightarrow> Some ''not Ready''
                   | Some l \<Rightarrow> if MaxScanTokenSize \<le> length l
                               then Some ''reading input: bufio.Scanner: token too long'' else None) \<and>
         ((\<forall>l \<in> set (splitLines buffer). length l < MaxScanTokenSize) \<longrightarrow>
            (readinessCheck (Some \<lparr>Container = Some c\<rparr>) env = Return None \<longleftrightarrow>
               (\<exists>l \<in> set (splitLines buffer). line_ready l)) \<and>
            ((\<forall>l \<in> set (splitLines buffer). \<not> line_ready l) \<longrightarrow>
               readinessCheck (Some \<lparr>Container = Some c\<rparr>) env = Return (Some ''not Ready'')))"
proof -
  have r: "readinessCheck (Some \<lparr>Container = Some c\<rparr>) env = Return (scanLoop buffer)"
    using assms by (simp add: readinessCheck_def)
  show ?thesis
  proof (intro conjI impI)
    show "readinessCheck (Some \<lparr>Container = Some c\<rparr>) env =
           Return (case find (\<lambda>l. MaxScanTokenSize \<le> length l \<or> line_ready l) (splitLines buffer) of
                     None \<Rightarrow> Some ''not Ready''
                   | Some l \<Rightarrow> if MaxScanTokenSize \<le> length l
                               then Some ''reading input: bufio.Scanner: token too long'' else None)"
      using r by (simp add: scanLoop_find)
  next
    assume short: "\<forall>l \<in> set (splitLines buffer). length l < MaxScanTokenSize"
    show "readinessCheck (Some \<lparr>Container = Some c\<rparr>) env = Return None \<longleftrightarrow>
               (\<exists>l \<in> set (splitLines buffer). line_ready l)"
    proof (cases "find (\<lambda>l. MaxScanTokenSize \<le> length l \<or> line_ready l) (splitLines buffer)")
      case None
      then have "\<not> (\<exists>l \<in> set (splitLines buffer). line_ready l)"
        by (auto simp: find_None_iff)
      then show ?thesis
        using r None by (simp add: scanLoop_find)
    next
      case (Some l)
      then have "l \<in> set (splitLines buffer)" "MaxScanTokenSize \<le> length l \<or> line_ready l"
        by (auto simp: find_Some_iff)
      then show ?thesis
        using r Some short by (auto simp: scanLoop_find)
    qed
  next
    assume "\<forall>l \<in> set (splitLines buffer). length l < MaxScanTokenSize"
      and "\<forall>l \<in> set (splitLines buffer). \<not> line_ready l"
    then have "find (\<lambda>l. MaxScanTokenSize \<le> length l \<or> line_ready l) (splitLines buffer) = None"
      by (auto simp: find_None_iff)
    then show "readinessCheck (Some \<lparr>Container = Some c\<rparr>) env = Return (Some ''not Ready'')"
      using r by (simp add: scanLoop_find)
  qed
qed


theorem readinessCheck_lines_witness:
  "readinessCheck (Some \<lparr>Container = Some test_container\<rparr>)
     (logs_env (''Starting'' @ [newline] @ '' Ready.'' @ [CHR 0x0D, newline])) = Return None \<and>
   splitLines (''Starting'' @ [newline] @ '' Ready.'' @ [CHR 0x0D, newline]) =
     [''Starting'', '' Ready.'' @ [CHR 0x0D]] \<and>
   line_ready ('' Ready.'' @ [CHR 0x0D]) \<and>
   readinessCheck (Some \<lparr>Container = Some test_container\<rparr>)
     (logs_env (''Starting'' @ [newline] @ ''Waiting'')) = Return (Some ''not Ready'') \<and>
   splitLines (''Starting'' @ [newline] @ ''Waiting'') = [''Starting'', ''Waiting'']"
proof -
  have sl1: "splitLines (''Starting'' @ [newline] @ '' Ready.'' @ [CHR 0x0D, newline]) =
     [''Starting'', '' Ready.'' @ [CHR 0x0D]]"
    by (simp add: splitLines.simps newline_def)
  have sl2: "splitLines (''Starting'' @ [newline] @ ''Waiting'') = [''Starting'', ''Waiting'']"
    by (simp add: splitLines.simps newline_def)
  have ready: "line_ready ('' Ready.'' @ [CHR 0x0D])" "\<not> line_ready ''Starting''"
    "\<not> line_ready ''Waiting''"
    by (simp_all add: line_ready_iff sublist_Cons_right)
  have short: "\<forall>l \<in> set [''Starting'', '' Ready.'' @ [CHR 0x0D]]. length l < MaxScanTokenSize"
    "\<forall>l \<in> set [''Starting'', ''Waiting'']. length l < MaxScanTokenSize"
    by (simp_all add: MaxScanTokenSize_def)
  show ?thesis
    using readinessCheck_lines [of "logs_env (''Starting'' @ [newline] @ '' Ready.'' @ [CHR 0x0D, newline])"
        test_container "''Starting'' @ [newline] @ '' Ready.'' @ [CHR 0x0D, newline]"]
      readinessCheck_lines [of "logs_env (''Starting'' @ [newline] @ ''Waiting'')"
        test_container "''Starting'' @ [newline] @ ''Waiting''"]
      sl1 sl2 ready short
    by (simp add: logs_env_def)
qed

lemma splitLines_long:
  "splitLines (replicate MaxScanTokenSize (CHR ''a'') @ newline # ''Ready.'') =
     [replicate MaxScanTokenSize (CHR ''a''), ''Ready.'']"
proof -
  have tw: "takeWhile (\<lambda>c. c \<noteq> newline) (replicate MaxScanTokenSize (CHR ''a'') @ newline # ''Ready.'') =
      replicate MaxScanTokenSize (CHR ''a'')"
  proof -
    have "takeWhile (\<lambda>c. c \<noteq> newline) (replicate MaxScanTokenSize (CHR ''a'') @ newline # ''Ready.'') =
      replicate MaxScanTokenSize (CHR ''a'') @ takeWhile (\<lambda>c. c \<noteq> newline) (newline # ''Ready.'')"
      by (rule takeWhile_append2) (auto simp: newline_def)
    then show ?thesis by simp
  qed
  have "splitLines ''Ready.'' = [''Ready.'']"
    by (simp add: splitLines.simps newline_def)
  then show ?thesis
    by (subst splitLines.simps) (simp add: tw Let_def)
qed

text \<open>
  C5 as stated fails: a buffer whose first line is 65536 bytes long and whose second line is
  \<open>Ready.\<close> has a line containing \<open>Ready.\<close>, and the check returns an error (the scanner stops
  with \<open>ErrTooLong\<close> before it reaches that line).
\<close>

theorem readinessCheck_long_line_counterexample:
  "''Ready.'' \<in> set (splitLines (replicate MaxScanTokenSize (CHR ''a'') @ newline # ''Ready.'')) \<and>
   line_ready ''Ready.'' \<and>
   readinessCheck (Some \<lparr>Container = Some test_container\<rparr>)
     (logs_env (replicate MaxScanTokenSize (CHR ''a'') @ newline # ''Ready.'')) =
     Return (Some ''reading input: bufio.Scanner: token too long'')"
proof -
  have "readinessCheck (Some \<lparr>Container = Some test_container\<rparr>)
     (logs_env (replicate MaxScanTokenSize (CHR ''a'') @ newline # ''Ready.'')) =
     Return (scanLoop (replicate MaxScanTokenSize (CHR ''a'') @ newline # ''Ready.''))"
    by (simp add: readinessCheck_def logs_env_def)
  moreover have "scanLoop (replicate MaxScanTokenSize (CHR ''a'') @ newline # ''Ready.'') =
      Some ''reading input: bufio.Scanner: token too long''"
    by (simp add: scanLoop_find splitLines_long)
  moreover have "line_ready ''Ready.''"
    by (simp add: line_ready_iff)
  ultimately show ?thesis
    by (simp add: splitLines_long)
qed




subsection \<open>C8: Sort\<close>

lemma Less_nat:
  "i < length d \<Longrightarrow> j < length d \<Longrightarrow> Less d (int i) (int j) = Return (Name (d ! i) < Name (d ! j))"
  by (simp add: Less_def in_range_def Len_def)

lemma Swap_nat:
  "i < length d \<Longrightarrow> j < length d \<Longrightarrow> Swap d (int i) (int j) = Return (d[i := d ! j, j := d ! i])"
  by (simp add: Swap_def in_range_def Len_def)

lemma mset_insl: "mset (insl x ys) = add_mset x (mset ys)"
  by (induction ys) auto

lemma set_insl: "set (insl x ys) = insert x (set ys)"
  by (induction ys) auto

lemma length_insl: "length (insl x ys) = Suc (length ys)"
  by (induction ys) auto

lemma sorted_insl:
  "sorted_wrt (\<lambda>a b. Name b \<le> Name a) ys \<Longrightarrow> sorted_wrt (\<lambda>a b. Name b \<le> Name a) (insl x ys)"
  by (induction ys) (auto simp: set_insl)

lemma insertionSort_inner_insl:
  "insertionSort_inner (xs @ x # ys) 0 (length xs) = Return (rev (insl x (rev xs)) @ ys)"
proof (induction xs arbitrary: ys rule: rev_induct)
  case Nil
  then show ?case by (simp add: insertionSort_inner.simps [of _ 0 0])
next
  case (snoc y xs)
  let ?d = "(xs @ [y]) @ x # ys"
  let ?j = "length (xs @ [y])"
  have j: "?j < length ?d" "?j - 1 < length ?d" "0 < ?j" by simp_all
  have i1: "int ?j - 1 = int (?j - 1)" by simp
  have dj: "?d ! ?j = x" by (metis nth_append_length)
  have dj1: "?d ! (?j - 1) = y" by (simp add: nth_append)
  have less: "Less ?d (int ?j) (int ?j - 1) = Return (Name x < Name y)"
    unfolding i1 using Less_nat [OF j(1) j(2)] dj dj1 by simp
  show ?case
  proof (cases "Name x < Name y")
    case False
    then show ?thesis
      using less by (subst insertionSort_inner.simps) simp
  next
    case True
    have "?d[?j := ?d ! (?j - 1), ?j - 1 := ?d ! ?j] = xs @ x # (y # ys)"
      by (simp add: list_update_append nth_append)
    then have swap: "Swap ?d (int ?j) (int ?j - 1) = Return (xs @ x # (y # ys))"
      unfolding i1 using Swap_nat [OF j(1) j(2)] by simp
    have "insertionSort_inner ?d 0 ?j = insertionSort_inner (xs @ x # (y # ys)) 0 (?j - 1)"
      using less swap True by (subst insertionSort_inner.simps) simp
    also have "\<dots> = Return (rev (insl x (rev xs)) @ y # ys)"
      using snoc [of "y # ys"] by simp
    finally show ?thesis
      using True by simp
  qed
qed

lemma insertionSort_outer_sorts:
  assumes "i \<le> length d" "sorted (map Name (take i d))"
  shows "\<exists>d'. insertionSort_outer d 0 (length d) i = Return d' \<and> mset d' = mset d \<and>
           sorted (map Name d')"
  using assms
proof (induction "length d - i" arbitrary: d i)
  case 0
  then have "i = length d" by simp
  then show ?case
    using 0 by (subst insertionSort_outer.simps) simp
next
  case (Suc n)
  then have i: "i < length d" by simp
  let ?d' = "rev (insl (d ! i) (rev (take i d))) @ drop (Suc i) d"
  have d: "d = take i d @ d ! i # drop (Suc i) d"
    using i by (simp add: id_take_nth_drop)
  have "insertionSort_inner (take i d @ d ! i # drop (Suc i) d) 0 (length (take i d)) = Return ?d'"
    by (rule insertionSort_inner_insl)
  then have inner: "insertionSort_inner d 0 i = Return ?d'"
    using d i by (metis length_take min.absorb2 less_imp_le)
  have len: "length ?d' = length d"
    using i by (simp add: length_insl)
  have ms: "mset ?d' = mset d"
  proof -
    have "mset ?d' = add_mset (d ! i) (mset (take i d)) + mset (drop (Suc i) d)"
      by (simp add: mset_insl)
    also have "\<dots> = mset (take i d @ d ! i # drop (Suc i) d)" by simp
    finally show ?thesis using d by simp
  qed
  have tk: "take (i + 1) ?d' = rev (insl (d ! i) (rev (take i d)))"
    using i by (simp add: length_insl)
  have "sorted_wrt (\<lambda>a b. Name b \<le> Name a) (rev (take i d))"
    using Suc.prems(2) by (simp add: sorted_wrt_rev sorted_map)
  then have "sorted_wrt (\<lambda>a b. Name b \<le> Name a) (insl (d ! i) (rev (take i d)))"
    by (rule sorted_insl)
  then have "sorted_wrt (\<lambda>a b. Name a \<le> Name b) (rev (insl (d ! i) (rev (take i d))))"
    by (simp add: sorted_wrt_rev)
  then have srt: "sorted (map Name (take (i + 1) ?d'))"
    using tk by (simp add: sorted_map)
  have "\<exists>d''. insertionSort_outer ?d' 0 (length ?d') (i + 1) = Return d'' \<and> mset d'' = mset ?d' \<and>
           sorted (map Name d'')"
    using Suc.hyps(2) i len srt by (intro Suc.hyps(1)) simp_all
  then obtain d'' where d'': "insertionSort_outer ?d' 0 (length d) (i + 1) = Return d''"
    "mset d'' = mset d" "sorted (map Name d'')"
    using len ms by auto
  have "insertionSort_outer d 0 (length d) i = Return d''"
    using i inner d''(1) by (subst insertionSort_outer.simps) simp
  then show ?case
    using d''(2,3) by blast
qed


lemma shellPass_mset:
  assumes "b = length d" "6 \<le> i"
  shows "\<exists>d'. shellPass d b i = Return d' \<and> mset d' = mset d"
  using assms
proof (induction "b - i" arbitrary: d i)
  case 0
  then show ?case by (subst shellPass.simps) simp
next
  case (Suc n)
  then have i: "i < length d" "i - 6 < length d" by simp_all
  have i6: "int i - 6 = int (i - 6)" using Suc.prems(2) by simp
  have less: "Less d (int i) (int i - 6) = Return (Name (d ! i) < Name (d ! (i - 6)))"
    unfolding i6 by (rule Less_nat [OF i])
  show ?case
  proof (cases "Name (d ! i) < Name (d ! (i - 6))")
    case False
    have "\<exists>d'. shellPass d b (i + 1) = Return d' \<and> mset d' = mset d"
      using Suc by (intro Suc.hyps(1)) simp_all
    then show ?thesis
      using less False i Suc.prems(1) by (subst shellPass.simps) simp
  next
    case True
    let ?d = "d[i := d ! (i - 6), i - 6 := d ! i]"
    have swap: "Swap d (int i) (int i - 6) = Return ?d"
      unfolding i6 by (rule Swap_nat [OF i])
    have ms: "mset ?d = mset d"
      by (rule mset_swap [OF i(2) i(1)])
    have "\<exists>d'. shellPass ?d b (i + 1) = Return d' \<and> mset d' = mset ?d"
      using Suc by (intro Suc.hyps(1)) simp_all
    then show ?thesis
      using less swap True i Suc.prems(1) ms by (subst shellPass.simps) simp
  qed
qed

lemma shellInsertionSort_sorts:
  "\<exists>d'. shellInsertionSort d = Return d' \<and> mset d' = mset d \<and> sorted (map Name d')"
proof (cases "length d \<le> 1")
  case True
  then have "sorted (map Name d)"
    by (intro sorted01) simp
  then show ?thesis
    using True by (simp add: shellInsertionSort_def Len_def)
next
  case False
  obtain d1 where d1: "shellPass d (length d) 6 = Return d1" "mset d1 = mset d"
    using shellPass_mset [of "length d" d 6] by auto
  then have len: "length d1 = length d"
    by (metis size_mset)
  have "sorted (map Name (take 1 d1))"
    by (intro sorted01) simp
  then have "\<exists>d'. insertionSort_outer d1 0 (length d1) 1 = Return d' \<and> mset d' = mset d1 \<and>
      sorted (map Name d')"
    using False len by (intro insertionSort_outer_sorts) simp_all
  then show ?thesis
    using False d1 len by (simp add: shellInsertionSort_def Len_def insertionSort_def)
qed

lemma sorted_Less_False:
  assumes "sorted (map Name d)" "i < j" "j < length d"
  shows "Less d (int j) (int i) = Return False"
proof -
  have "map Name d ! i \<le> map Name d ! j"
    using assms by (intro sorted_nth_mono) simp_all
  then have "\<not> Name (d ! j) < Name (d ! i)"
    using assms by simp
  then show ?thesis
    using assms Less_nat [of j d i] by simp
qed

lemma sort_contract_shellInsertionSort: "sort_contract shellInsertionSort"
  unfolding sort_contract_def
proof
  fix d
  obtain d' where d': "shellInsertionSort d = Return d'" "mset d' = mset d" "sorted (map Name d')"
    using shellInsertionSort_sorts by blast
  then show "\<exists>data'. shellInsertionSort d = Return data' \<and> mset data' = mset d \<and>
     (\<forall>i j. i < j \<and> j < length data' \<longrightarrow> Less data' (int j) (int i) = Return False)"
    using sorted_Less_False by blast
qed

lemma sort_contract_sorted:
  assumes "sort_contract sort_Sort"
  shows "\<exists>d'. sort_Sort d = Return d' \<and> mset d' = mset d \<and> sorted (map Name d')"
proof -
  obtain d' where d': "sort_Sort d = Return d'" "mset d' = mset d"
    "\<forall>i j. i < j \<and> j < length d' \<longrightarrow> Less d' (int j) (int i) = Return False"
    using assms unfolding sort_contract_def by blast
  have "sorted (map Name d')"
    unfolding sorted_iff_nth_Suc
  proof (intro allI impI)
    fix i
    assume "Suc i < length (map Name d')"
    then have i: "Suc i < length d'" by simp
    then have "Less d' (int (Suc i)) (int i) = Return False"
      using d'(3) by blast
    then have "\<not> Name (d' ! Suc i) < Name (d' ! i)"
      using i Less_nat [of "Suc i" d' i] by simp
    then show "map Name d' ! i \<le> map Name d' ! Suc i"
      using i by simp
  qed
  then show ?thesis
    using d'(1,2) by blast
qed

lemma distinct_names_stable:
  assumes "mset d' = mset d" "distinct (map Name d)"
  shows "stable_by_Name d d'"
  unfolding stable_by_Name_def
proof
  fix n
  have m: "mset (filter (\<lambda>x. Name x = n) d') = mset (filter (\<lambda>x. Name x = n) d)"
    using assms(1) by simp
  have "length (filter (\<lambda>x. Name x = n) d) \<le> 1"
    using assms(2)
  proof (induction d)
    case Nil
    then show ?case by simp
  next
    case (Cons a d)
    then show ?case by (auto simp: filter_empty_conv) (metis image_eqI)
  qed
  moreover have "length (filter (\<lambda>x. Name x = n) d') = length (filter (\<lambda>x. Name x = n) d)"
    using m by (metis size_mset)
  ultimately show "filter (\<lambda>x. Name x = n) d' = filter (\<lambda>x. Name x = n) d"
    using m by (cases "filter (\<lambda>x. Name x = n) d'"; cases "filter (\<lambda>x. Name x = n) d") auto
qed

text \<open>
  C8, as amended. Given that \<open>sort.Sort\<close> keeps its documented contract, for every collection
  stored at the pointer \<open>Sort\<close> is called on: \<open>Sort\<close> returns that same pointer, the collection
  stored there afterwards holds the same elements in non-decreasing order of \<open>Name\<close>, and no
  other location changes. Elements with equal names may change their relative order; when
  all names are distinct the order is stable.
\<close>

theorem Sort_sorted_by_Name:
  assumes "sort_contract sort_Sort" and "h collection = Some data"
  shows "\<exists>data'. Sort sort_Sort collection h = Return (collection, h(collection \<mapsto> data')) \<and>
           mset data' = mset data \<and> sorted (map Name data') \<and>
           (distinct (map Name data) \<longrightarrow> stable_by_Name data data')"
proof -
  obtain d' where d': "sort_Sort data = Return d'" "mset d' = mset data" "sorted (map Name d')"
    using sort_contract_sorted [OF assms(1)] by blast
  then show ?thesis
    using assms(2) distinct_names_stable [of d' data]
    by (intro exI [of _ d']) (simp add: Sort_def)
qed


theorem Sort_sorted_by_Name_witness:
  "sort_contract shellInsertionSort \<and>
   Sort shellInsertionSort 0 [0 \<mapsto> test_services] =
     Return (0, [0 \<mapsto> [\<lparr>Name = ''s3'', Protocol = ''tcp'', Port = 4566\<rparr>,
                          \<lparr>Name = ''sqs'', Protocol = ''tcp'', Port = 4566\<rparr>]]) \<and>
   sorted (map Name [\<lparr>Name = ''s3'', Protocol = ''tcp'', Port = 4566\<rparr>,
                     \<lparr>Name = ''sqs'', Protocol = ''tcp'', Port = 4566\<rparr>]) \<and>
   stable_by_Name test_services [\<lparr>Name = ''s3'', Protocol = ''tcp'', Port = 4566\<rparr>,
                         \<lparr>Name = ''sqs'', Protocol = ''tcp'', Port = 4566\<rparr>]"
proof -
  have ev: "shellInsertionSort test_services =
     Return [\<lparr>Name = ''s3'', Protocol = ''tcp'', Port = 4566\<rparr>,
             \<lparr>Name = ''sqs'', Protocol = ''tcp'', Port = 4566\<rparr>]"
    by code_simp
  have dist: "distinct (map Name test_services)"
    by (simp add: test_services_def)
  have h: "[0 \<mapsto> test_services] (0::nat) = Some test_services"
    by simp
  from Sort_sorted_by_Name [of shellInsertionSort "[0 \<mapsto> test_services]" 0 test_services,
      OF sort_contract_shellInsertionSort h]
  obtain data' where d: "Sort shellInsertionSort 0 [0 \<mapsto> test_services] =
      Return (0, [0 \<mapsto> test_services, 0 \<mapsto> data'])"
    "sorted (map Name data')" "distinct (map Name test_services) \<longrightarrow> stable_by_Name test_services data'"
    by blast
  have s: "Sort shellInsertionSort 0 [0 \<mapsto> test_services] =
     Return (0, [0 \<mapsto> [\<lparr>Name = ''s3'', Protocol = ''tcp'', Port = 4566\<rparr>,
                          \<lparr>Name = ''sqs'', Protocol = ''tcp'', Port = 4566\<rparr>]])"
    using ev by (simp add: Sort_def)
  then have "data' = [\<lparr>Name = ''s3'', Protocol = ''tcp'', Port = 4566\<rparr>,
                      \<lparr>Name = ''sqs'', Protocol = ''tcp'', Port = 4566\<rparr>]"
    using d(1) by (simp add: map_upd_eqD1)
  then show ?thesis
    using d(2,3) dist s sort_contract_shellInsertionSort by simp
qed

text \<open>
  C8 as stated fails on stability. \<open>shellInsertionSort\<close> keeps the contract of \<open>sort.Sort\<close> (it
  is what Go 1.11 to 1.18 run on up to 12 elements), and on the seven descriptors of
  \<open>unsorted7\<close> its gap-6 pass exchanges the first \<open>s3\<close> with \<open>iam\<close>, so that the two
  descriptors named \<open>s3\<close> end up in the opposite order.
\<close>

theorem Sort_not_stable_counterexample:
  "sort_contract shellInsertionSort \<and>
   Sort shellInsertionSort 0 [0 \<mapsto> unsorted7] = Return (0, [0 \<mapsto> sorted7]) \<and>
   \<not> stable_by_Name unsorted7 sorted7"
proof -
  have ev: "shellInsertionSort unsorted7 = Return sorted7"
    by code_simp
  have "\<not> stable_by_Name unsorted7 sorted7"
  proof
    assume "stable_by_Name unsorted7 sorted7"
    then have "filter (\<lambda>x. Name x = ''s3'') sorted7 = filter (\<lambda>x. Name x = ''s3'') unsorted7"
      unfolding stable_by_Name_def by blast
    then show False
      by (simp add: sorted7_def unsorted7_def)
  qed
  then show ?thesis
    using ev sort_contract_shellInsertionSort by (simp add: Sort_def)
qed

end
